theory Spec2Isabelle
  imports Main "HOL-Library.Word"
begin

unbundle bit_operations_syntax

section \<open>Machine integers, faults and the build configuration\<close>

text \<open>
  The allocator is C++ over fixed-width integers. Bit masks (usage flags, internal
  formats, capability masks) are words; dimension arithmetic is written over
  \<open>nat\<close> and \<open>int\<close> with the 32-bit wrap-around spelled out, so that the
  overflow behaviour of the geometry code is part of the model.

  A read past the end of an array, a division by zero, a failed \<open>assert\<close>
  and the use of a null pointer are values of type \<open>fault\<close>: every such point of the source is a
  branch of the model.
\<close>

type_synonym u32 = "32 word"
type_synonym u64 = "64 word"

datatype fault = OutOfBounds | DivisionByZero | AssertionFailed | NullPointer

definition bind_res :: "fault + 'a \<Rightarrow> ('a \<Rightarrow> fault + 'b) \<Rightarrow> fault + 'b" where
  "bind_res r k = (case r of Inl e \<Rightarrow> Inl e | Inr v \<Rightarrow> k v)"

text \<open>
  The names of the pixel formats used by the sources. The numeric identifiers are
  assigned in \<open>mali_gralloc_formats.h\<close> and in the platform's pixel-format header,
  neither of which is among the sources; the model takes the assignment as the
  parameter \<open>ids\<close> of the build configuration.
\<close>

datatype (plugins only: code) fmt_name =
  INTERNAL_RGB_565 | INTERNAL_RGB_888 | INTERNAL_RGBA_8888 | INTERNAL_BGRA_8888
| INTERNAL_RGBX_8888 | INTERNAL_RGBA_1010102 | INTERNAL_RGBA_16161616
| INTERNAL_Y8 | INTERNAL_Y16 | INTERNAL_YUV420_8BIT_I | INTERNAL_NV12 | INTERNAL_NV21
| INTERNAL_YV12 | INTERNAL_YUV420_10BIT_I | INTERNAL_Y0L2 | INTERNAL_P010
| INTERNAL_Y210 | INTERNAL_P210 | INTERNAL_YUV444_10BIT_I | INTERNAL_Y410
| INTERNAL_RAW16 | INTERNAL_RAW12 | INTERNAL_RAW10 | INTERNAL_BLOB
| INTERNAL_YUV422_8BIT | INTERNAL_YUV420_888
| INTERNAL_DEPTH_16 | INTERNAL_DEPTH_24 | INTERNAL_DEPTH_24_STENCIL_8
| INTERNAL_DEPTH_32F | INTERNAL_DEPTH_32F_STENCIL_8 | INTERNAL_STENCIL_8
| HAL_YCrCb_420_SP | HAL_YCbCr_422_I | HAL_YCbCr_422_SP
| HAL_DEPTH_16 | HAL_DEPTH_24 | HAL_DEPTH_24_STENCIL_8 | HAL_DEPTH_32F
| HAL_DEPTH_32F_STENCIL_8 | HAL_STENCIL_8
| HAL_IMPLEMENTATION_DEFINED | HAL_YCbCr_420_888 | HAL_YCbCr_422_888
| HAL_YCbCr_444_888 | HAL_YV12

text \<open>
  The masks \<open>MALI_GRALLOC_INTFMT_*\<close> of the internal format (base format in the low
  bits, AFBC modifier bits above) and the capability bits
  \<open>MALI_GRALLOC_FORMAT_CAPABILITY_*\<close>. Both families are declared in
  \<open>mali_gralloc_formats.h\<close>, which is not among the sources: they are parameters too.
\<close>

record mali_intfmt =
  INTFMT_FMT_MASK :: u64
  INTFMT_EXT_MASK :: u64
  INTFMT_AFBCENABLE_MASK :: u64
  INTFMT_AFBC_BASIC :: u64
  INTFMT_AFBC_SPLITBLK :: u64
  INTFMT_AFBC_WIDEBLK :: u64
  INTFMT_AFBC_TILED_HEADERS :: u64
  INTFMT_AFBC_EXTRAWIDEBLK :: u64
  INTFMT_AFBC_DOUBLE_BODY :: u64

record mali_capability =
  CAPABILITY_OPTIONS_PRESENT :: u64
  CAPABILITY_AFBC_BASIC :: u64
  CAPABILITY_AFBC_SPLITBLK :: u64
  CAPABILITY_AFBC_WIDEBLK :: u64
  CAPABILITY_AFBC_TILED_HEADERS :: u64
  CAPABILITY_AFBC_YUV_NOREAD :: u64
  CAPABILITY_AFBC_YUV_NOWRITE :: u64
  CAPABILITY_AFBCENABLE_MASK :: u64
  CAPABILITY_AFBC_DOUBLE_BODY :: u64
  CAPABILITY_AFBC_MULTIPLANE_READ :: u64
  CAPABILITY_PIXFMT_RGBA1010102 :: u64
  CAPABILITY_PIXFMT_RGBA16161616 :: u64

text \<open>
  The producer and consumer roles (enumerations of \<open>mali_gralloc_formats.h\<close>).
  One comparison of the sources mixes the two enumerations, so their integer
  codes are parameters of the build as well.
\<close>

datatype mali_gralloc_producer_type =
  MALI_GRALLOC_PRODUCER_UNKNOWN | MALI_GRALLOC_PRODUCER_CPU | MALI_GRALLOC_PRODUCER_GPU
| MALI_GRALLOC_PRODUCER_GPU_OR_DISPLAY | MALI_GRALLOC_PRODUCER_DISPLAY
| MALI_GRALLOC_PRODUCER_DISPLAY_AEU | MALI_GRALLOC_PRODUCER_VIDEO_DECODER
| MALI_GRALLOC_PRODUCER_CAMERA

datatype mali_gralloc_consumer_type =
  MALI_GRALLOC_CONSUMER_UNKNOWN | MALI_GRALLOC_CONSUMER_CPU | MALI_GRALLOC_CONSUMER_GPU_OR_DISPLAY
| MALI_GRALLOC_CONSUMER_GPU_EXCL | MALI_GRALLOC_CONSUMER_DISPLAY_EXCL
| MALI_GRALLOC_CONSUMER_VIDEO_ENCODER

datatype mali_gralloc_format_type =
  MALI_GRALLOC_FORMAT_TYPE_USAGE | MALI_GRALLOC_FORMAT_TYPE_INTERNAL

text \<open>
  The build configuration: the constants above, the preprocessor switches the
  modelled code branches on, and the four capability masks
  (\<open>gpu_runtime_caps\<close> and its siblings) as they stand once
  \<open>determine_format_capabilities\<close> has run. That function probes driver
  libraries with \<open>dlopen\<close>; its result is an input of the model.
  \<open>PRIVATE_FORMAT_UNWRAP\<close> stands for the macro
  \<open>GRALLOC_PRIVATE_FORMAT_UNWRAP\<close>, applied to the request truncated to \<open>int\<close>.
  \<open>NDEBUG\<close> tells whether \<open>assert\<close> is compiled out, \<open>LP64\<close> whether
  \<open>size_t\<close> has 64 bits. \<open>sizeof_native_handle\<close> and
  \<open>NUM_INTS_IN_PRIVATE_HANDLE\<close> are the two sizes of the target's memory layout
  that the validation of a handle compares with.

  The model embeds the build with \<open>GRALLOC_USE_GRALLOC1_API == 1\<close> and without the
  legacy paths (\<open>GRALLOC_USE_LEGACY_CALCS\<close>, \<open>GRALLOC_USE_LEGACY_LOCK\<close> and
  \<open>GRALLOC_USE_LEGACY_ION_API\<close> different from 1), whose code is not among the
  sources.
\<close>

record gralloc_build =
  intfmt :: mali_intfmt
  capability :: mali_capability
  ids :: "fmt_name \<Rightarrow> u32"
  PRIVATE_FORMAT_UNWRAP :: "u32 \<Rightarrow> u64"
  producer_code :: "mali_gralloc_producer_type \<Rightarrow> int"
  consumer_code :: "mali_gralloc_consumer_type \<Rightarrow> int"
  PLATFORM_SDK_VERSION :: nat
  MALI_DISPLAY_VERSION :: nat
  GRALLOC_DISP_W :: int
  GRALLOC_DISP_H :: int
  GRALLOC_INIT_AFBC :: bool
  GRALLOC_USE_ION_COMPOUND_PAGE_HEAP :: bool
  GRALLOC_USE_ION_DMA_HEAP :: bool
  NDEBUG :: bool
  LP64 :: bool
  gpu_runtime_caps :: u64
  dpu_runtime_caps :: u64
  vpu_runtime_caps :: u64
  cam_runtime_caps :: u64
  sizeof_native_handle :: int
  NUM_INTS_IN_PRIVATE_HANDLE :: int

definition fid :: "gralloc_build \<Rightarrow> fmt_name \<Rightarrow> u64" where
  "fid e n = ucast (ids e n)"

section \<open>Usage flags\<close>

text \<open>
  \<open>mali_gralloc_usages.h\<close> defines the usage flags through the platform's
  \<open>GRALLOC1_*_USAGE_*\<close> enumerators (hardware/gralloc1.h, a header of the platform,
  not of this repository); their values are bit positions fixed by the platform.
\<close>

definition GRALLOC_USAGE_SW_READ_MASK :: u64 where "GRALLOC_USAGE_SW_READ_MASK = 0x0000000F"
definition GRALLOC_USAGE_SW_WRITE_MASK :: u64 where "GRALLOC_USAGE_SW_WRITE_MASK = 0x000000F0"
definition GRALLOC_USAGE_SW_READ_OFTEN :: u64 where "GRALLOC_USAGE_SW_READ_OFTEN = 0x00000006"
definition GRALLOC_USAGE_HW_TEXTURE :: u64 where "GRALLOC_USAGE_HW_TEXTURE = 0x00000100"
definition GRALLOC_USAGE_HW_RENDER :: u64 where "GRALLOC_USAGE_HW_RENDER = 0x00000200"
definition GRALLOC_USAGE_HW_COMPOSER :: u64 where "GRALLOC_USAGE_HW_COMPOSER = 0x00000800"
definition GRALLOC_USAGE_HW_FB :: u64 where "GRALLOC_USAGE_HW_FB = 0x00001000"
definition GRALLOC_USAGE_EXTERNAL_DISP :: u64 where "GRALLOC_USAGE_EXTERNAL_DISP = 0x00002000"
definition GRALLOC_USAGE_PROTECTED :: u64 where "GRALLOC_USAGE_PROTECTED = 0x00004000"
definition GRALLOC_USAGE_HW_VIDEO_ENCODER :: u64 where "GRALLOC_USAGE_HW_VIDEO_ENCODER = 0x00010000"
definition GRALLOC_USAGE_HW_CAMERA_MASK :: u64 where "GRALLOC_USAGE_HW_CAMERA_MASK = 0x00060000"
definition GRALLOC_USAGE_PRIVATE_MASK :: u64 where "GRALLOC_USAGE_PRIVATE_MASK = 0xffff0000f0000000"

definition MALI_GRALLOC_USAGE_FRONTBUFFER :: u64 where "MALI_GRALLOC_USAGE_FRONTBUFFER = 0x10000000"
definition MALI_GRALLOC_USAGE_FORCE_BACKBUFFER :: u64 where "MALI_GRALLOC_USAGE_FORCE_BACKBUFFER = 0x20000000"
definition MALI_GRALLOC_USAGE_NO_AFBC :: u64 where "MALI_GRALLOC_USAGE_NO_AFBC = 0x60000000"
definition MALI_GRALLOC_USAGE_AFBC_PADDING :: u64 where "MALI_GRALLOC_USAGE_AFBC_PADDING = 0x40000000"
definition MALI_GRALLOC_USAGE_PRIVATE_FORMAT :: u64 where "MALI_GRALLOC_USAGE_PRIVATE_FORMAT = 0x80000000"

section \<open>The format table\<close>

record format_info =
  fmt_id :: u32
  npln :: nat
  ncmp :: nat
  bps :: nat
  bpp_afbc :: "nat list"
  bpp :: "nat list"
  hsub :: nat
  vsub :: nat
  tile_size :: nat
  has_alpha :: bool
  is_yuv :: bool
  afbc :: bool
  linear :: bool
  flex :: bool
  pwa :: nat


definition formats_rgb :: "gralloc_build \<Rightarrow> format_info list" where
  "formats_rgb e = [
    \<lparr>fmt_id = ids e INTERNAL_RGB_565, npln = 1, ncmp = 3, bps = 6, bpp_afbc = [16, 0, 0], bpp = [16, 0, 0], hsub = 1, vsub = 1, tile_size = 1, has_alpha = False, is_yuv = False, afbc = True, linear = True, flex = False, pwa = 1\<rparr>,
    \<lparr>fmt_id = ids e INTERNAL_RGB_888, npln = 1, ncmp = 3, bps = 8, bpp_afbc = [24, 0, 0], bpp = [24, 0, 0], hsub = 1, vsub = 1, tile_size = 1, has_alpha = False, is_yuv = False, afbc = True, linear = True, flex = True, pwa = 1\<rparr>,
    \<lparr>fmt_id = ids e INTERNAL_RGBA_8888, npln = 1, ncmp = 4, bps = 8, bpp_afbc = [32, 0, 0], bpp = [32, 0, 0], hsub = 1, vsub = 1, tile_size = 1, has_alpha = True, is_yuv = False, afbc = True, linear = True, flex = True, pwa = 1\<rparr>,
    \<lparr>fmt_id = ids e INTERNAL_BGRA_8888, npln = 1, ncmp = 4, bps = 8, bpp_afbc = [32, 0, 0], bpp = [32, 0, 0], hsub = 1, vsub = 1, tile_size = 1, has_alpha = True, is_yuv = False, afbc = True, linear = True, flex = True, pwa = 1\<rparr>,
    \<lparr>fmt_id = ids e INTERNAL_RGBX_8888, npln = 1, ncmp = 3, bps = 8, bpp_afbc = [32, 0, 0], bpp = [32, 0, 0], hsub = 1, vsub = 1, tile_size = 1, has_alpha = False, is_yuv = False, afbc = True, linear = True, flex = True, pwa = 1\<rparr>]"

definition formats_sdk26 :: "gralloc_build \<Rightarrow> format_info list" where
  "formats_sdk26 e = [
    \<lparr>fmt_id = ids e INTERNAL_RGBA_1010102, npln = 1, ncmp = 4, bps = 10, bpp_afbc = [32, 0, 0], bpp = [32, 0, 0], hsub = 1, vsub = 1, tile_size = 1, has_alpha = True, is_yuv = False, afbc = True, linear = True, flex = False, pwa = 1\<rparr>,
    \<lparr>fmt_id = ids e INTERNAL_RGBA_16161616, npln = 1, ncmp = 4, bps = 16, bpp_afbc = [64, 0, 0], bpp = [64, 0, 0], hsub = 1, vsub = 1, tile_size = 1, has_alpha = True, is_yuv = False, afbc = False, linear = True, flex = True, pwa = 1\<rparr>]"

definition formats_yuv :: "gralloc_build \<Rightarrow> format_info list" where
  "formats_yuv e = [
    \<lparr>fmt_id = ids e INTERNAL_Y8, npln = 1, ncmp = 1, bps = 8, bpp_afbc = [8, 0, 0], bpp = [8, 0, 0], hsub = 2, vsub = 2, tile_size = 1, has_alpha = False, is_yuv = True, afbc = True, linear = True, flex = True, pwa = 16\<rparr>,
    \<lparr>fmt_id = ids e INTERNAL_Y16, npln = 1, ncmp = 1, bps = 16, bpp_afbc = [16, 0, 0], bpp = [16, 0, 0], hsub = 2, vsub = 2, tile_size = 1, has_alpha = False, is_yuv = True, afbc = True, linear = True, flex = True, pwa = 16\<rparr>,
    \<lparr>fmt_id = ids e INTERNAL_YUV420_8BIT_I, npln = 1, ncmp = 3, bps = 8, bpp_afbc = [12, 0, 0], bpp = [0, 0, 0], hsub = 2, vsub = 2, tile_size = 1, has_alpha = False, is_yuv = True, afbc = True, linear = False, flex = False, pwa = 1\<rparr>,
    \<lparr>fmt_id = ids e INTERNAL_NV12, npln = 2, ncmp = 3, bps = 8, bpp_afbc = [8, 16, 0], bpp = [8, 16, 0], hsub = 2, vsub = 2, tile_size = 1, has_alpha = False, is_yuv = True, afbc = True, linear = True, flex = True, pwa = 1\<rparr>,
    \<lparr>fmt_id = ids e INTERNAL_NV21, npln = 2, ncmp = 3, bps = 8, bpp_afbc = [8, 16, 0], bpp = [8, 16, 0], hsub = 2, vsub = 2, tile_size = 1, has_alpha = False, is_yuv = True, afbc = True, linear = True, flex = True, pwa = 1\<rparr>,
    \<lparr>fmt_id = ids e HAL_YCrCb_420_SP, npln = 2, ncmp = 3, bps = 8, bpp_afbc = [8, 16, 0], bpp = [8, 16, 0], hsub = 2, vsub = 2, tile_size = 1, has_alpha = False, is_yuv = True, afbc = True, linear = True, flex = True, pwa = 1\<rparr>,
    \<lparr>fmt_id = ids e INTERNAL_YV12, npln = 3, ncmp = 3, bps = 8, bpp_afbc = [8, 8, 8], bpp = [8, 8, 8], hsub = 2, vsub = 2, tile_size = 1, has_alpha = False, is_yuv = True, afbc = True, linear = True, flex = True, pwa = 16\<rparr>,
    \<lparr>fmt_id = ids e HAL_YCbCr_422_I, npln = 1, ncmp = 3, bps = 8, bpp_afbc = [16, 0, 0], bpp = [16, 0, 0], hsub = 2, vsub = 1, tile_size = 1, has_alpha = False, is_yuv = True, afbc = True, linear = True, flex = True, pwa = 1\<rparr>,
    \<lparr>fmt_id = ids e HAL_YCbCr_422_SP, npln = 2, ncmp = 3, bps = 8, bpp_afbc = [8, 16, 0], bpp = [8, 16, 0], hsub = 2, vsub = 1, tile_size = 1, has_alpha = False, is_yuv = True, afbc = True, linear = True, flex = True, pwa = 1\<rparr>,
    \<lparr>fmt_id = ids e INTERNAL_YUV420_10BIT_I, npln = 1, ncmp = 3, bps = 10, bpp_afbc = [15, 0, 0], bpp = [0, 0, 0], hsub = 2, vsub = 2, tile_size = 1, has_alpha = False, is_yuv = True, afbc = True, linear = False, flex = False, pwa = 1\<rparr>,
    \<lparr>fmt_id = ids e INTERNAL_Y0L2, npln = 1, ncmp = 4, bps = 10, bpp_afbc = [16, 0, 0], bpp = [16, 0, 0], hsub = 2, vsub = 2, tile_size = 2, has_alpha = True, is_yuv = True, afbc = False, linear = True, flex = False, pwa = 1\<rparr>,
    \<lparr>fmt_id = ids e INTERNAL_P010, npln = 2, ncmp = 3, bps = 10, bpp_afbc = [10, 20, 0], bpp = [16, 32, 0], hsub = 2, vsub = 2, tile_size = 1, has_alpha = False, is_yuv = True, afbc = True, linear = True, flex = True, pwa = 1\<rparr>,
    \<lparr>fmt_id = ids e INTERNAL_Y210, npln = 1, ncmp = 3, bps = 10, bpp_afbc = [20, 0, 0], bpp = [32, 0, 0], hsub = 2, vsub = 1, tile_size = 1, has_alpha = False, is_yuv = True, afbc = True, linear = True, flex = True, pwa = 1\<rparr>,
    \<lparr>fmt_id = ids e INTERNAL_P210, npln = 2, ncmp = 3, bps = 10, bpp_afbc = [10, 20, 0], bpp = [16, 32, 0], hsub = 2, vsub = 1, tile_size = 1, has_alpha = False, is_yuv = True, afbc = True, linear = True, flex = True, pwa = 1\<rparr>,
    \<lparr>fmt_id = ids e INTERNAL_YUV444_10BIT_I, npln = 1, ncmp = 3, bps = 10, bpp_afbc = [30, 0, 0], bpp = [0, 0, 0], hsub = 1, vsub = 1, tile_size = 1, has_alpha = False, is_yuv = True, afbc = True, linear = False, flex = False, pwa = 1\<rparr>,
    \<lparr>fmt_id = ids e INTERNAL_Y410, npln = 1, ncmp = 4, bps = 10, bpp_afbc = [32, 0, 0], bpp = [32, 0, 0], hsub = 1, vsub = 1, tile_size = 1, has_alpha = True, is_yuv = True, afbc = False, linear = True, flex = False, pwa = 1\<rparr>]"

definition formats_other :: "gralloc_build \<Rightarrow> format_info list" where
  "formats_other e = [
    \<lparr>fmt_id = ids e INTERNAL_RAW16, npln = 1, ncmp = 1, bps = 16, bpp_afbc = [16, 0, 0], bpp = [16, 0, 0], hsub = 2, vsub = 2, tile_size = 1, has_alpha = False, is_yuv = False, afbc = False, linear = True, flex = False, pwa = 16\<rparr>,
    \<lparr>fmt_id = ids e INTERNAL_RAW12, npln = 1, ncmp = 1, bps = 12, bpp_afbc = [12, 0, 0], bpp = [12, 0, 0], hsub = 4, vsub = 2, tile_size = 1, has_alpha = False, is_yuv = False, afbc = False, linear = True, flex = False, pwa = 4\<rparr>,
    \<lparr>fmt_id = ids e INTERNAL_RAW10, npln = 1, ncmp = 1, bps = 10, bpp_afbc = [10, 0, 0], bpp = [10, 0, 0], hsub = 4, vsub = 2, tile_size = 1, has_alpha = False, is_yuv = False, afbc = False, linear = True, flex = False, pwa = 4\<rparr>,
    \<lparr>fmt_id = ids e INTERNAL_BLOB, npln = 1, ncmp = 1, bps = 8, bpp_afbc = [8, 0, 0], bpp = [8, 0, 0], hsub = 1, vsub = 1, tile_size = 1, has_alpha = False, is_yuv = False, afbc = False, linear = True, flex = False, pwa = 1\<rparr>]"

definition formats_sdk28 :: "gralloc_build \<Rightarrow> format_info list" where
  "formats_sdk28 e = [
    \<lparr>fmt_id = ids e HAL_DEPTH_16, npln = 1, ncmp = 1, bps = 16, bpp_afbc = [0, 0, 0], bpp = [16, 0, 0], hsub = 1, vsub = 1, tile_size = 1, has_alpha = False, is_yuv = False, afbc = False, linear = True, flex = False, pwa = 1\<rparr>,
    \<lparr>fmt_id = ids e HAL_DEPTH_24, npln = 1, ncmp = 1, bps = 24, bpp_afbc = [0, 0, 0], bpp = [24, 0, 0], hsub = 1, vsub = 1, tile_size = 1, has_alpha = False, is_yuv = False, afbc = False, linear = True, flex = False, pwa = 1\<rparr>,
    \<lparr>fmt_id = ids e HAL_DEPTH_24_STENCIL_8, npln = 1, ncmp = 2, bps = 24, bpp_afbc = [0, 0, 0], bpp = [32, 0, 0], hsub = 1, vsub = 1, tile_size = 1, has_alpha = False, is_yuv = False, afbc = False, linear = True, flex = False, pwa = 1\<rparr>,
    \<lparr>fmt_id = ids e HAL_DEPTH_32F, npln = 1, ncmp = 1, bps = 32, bpp_afbc = [0, 0, 0], bpp = [32, 0, 0], hsub = 1, vsub = 1, tile_size = 1, has_alpha = False, is_yuv = False, afbc = False, linear = True, flex = False, pwa = 1\<rparr>,
    \<lparr>fmt_id = ids e HAL_DEPTH_32F_STENCIL_8, npln = 1, ncmp = 2, bps = 32, bpp_afbc = [0, 0, 0], bpp = [40, 0, 0], hsub = 1, vsub = 1, tile_size = 1, has_alpha = False, is_yuv = False, afbc = False, linear = True, flex = False, pwa = 1\<rparr>,
    \<lparr>fmt_id = ids e HAL_STENCIL_8, npln = 1, ncmp = 1, bps = 8, bpp_afbc = [0, 0, 0], bpp = [8, 0, 0], hsub = 1, vsub = 1, tile_size = 1, has_alpha = False, is_yuv = False, afbc = False, linear = True, flex = False, pwa = 1\<rparr>]"

text \<open>
  The table \<open>formats[]\<close>, in the order of the source; the two blocks under
  \<open>#if PLATFORM_SDK_VERSION\<close> are present from SDK 26 and 28 on.
\<close>

definition formats :: "gralloc_build \<Rightarrow> format_info list" where
  "formats e =
     formats_rgb e
     @ (if 26 \<le> PLATFORM_SDK_VERSION e then formats_sdk26 e else [])
     @ formats_yuv e @ formats_other e
     @ (if 28 \<le> PLATFORM_SDK_VERSION e then formats_sdk28 e else [])"

definition num_formats :: "gralloc_build \<Rightarrow> nat" where
  "num_formats e = length (formats e)"

text \<open>
  \<open>formats[i]\<close>: the C read is defined only below \<open>num_formats\<close>.
\<close>

definition formats_at :: "gralloc_build \<Rightarrow> nat \<Rightarrow> fault + format_info" where
  "formats_at e i = (if i < num_formats e then Inr (formats e ! i) else Inl OutOfBounds)"

text \<open>
  The loop \<open>for (idx = 0; idx < n; idx++) if (P(xs[idx])) break;\<close>: the index
  of the first element satisfying \<open>P\<close>, and \<open>n\<close> when there is none.
\<close>

primrec scan_idx :: "('a \<Rightarrow> bool) \<Rightarrow> 'a list \<Rightarrow> nat" where
  "scan_idx P [] = 0"
| "scan_idx P (x # xs) = (if P x then 0 else Suc (scan_idx P xs))"

definition get_format_index :: "gralloc_build \<Rightarrow> u64 \<Rightarrow> int" where
  "get_format_index e base_format =
     (let format_idx = scan_idx (\<lambda>f. fmt_id f = ucast base_format) (formats e)
      in if format_idx \<ge> num_formats e then - 1 else int format_idx)"


section \<open>Format properties (format selection, part 1)\<close>

definition comparable_components :: "format_info \<Rightarrow> format_info \<Rightarrow> bool" where
  "comparable_components old_format new_format =
     (if ncmp new_format = ncmp old_format \<and> bps new_format = bps old_format
         \<and> is_yuv new_format = is_yuv old_format
      then True
      else if is_yuv old_format \<and> has_alpha old_format
              \<and> ncmp new_format = 3 \<and> is_yuv new_format \<and> \<not> has_alpha new_format
      then True
      else False)"

text \<open>
  \<open>is_afbc_supported(int req_format_mapped)\<close>: the argument is an \<open>int\<close>, so the
  comparison with the 64-bit mask sign-extends it. The scan does not test
  whether it found an entry before reading \<open>formats[format_idx]\<close>.
\<close>

definition is_afbc_supported :: "gralloc_build \<Rightarrow> u32 \<Rightarrow> fault + bool" where
  "is_afbc_supported e req_format_mapped =
     (let format_idx = scan_idx
            (\<lambda>f. ucast (fmt_id f) = (scast req_format_mapped AND INTFMT_FMT_MASK (intfmt e)))
            (formats e)
      in bind_res (formats_at e format_idx) (\<lambda>f.
           if \<not> afbc f then
             (let i = scan_idx (\<lambda>g. comparable_components f g \<and> afbc g) (formats e);
                  format_idx' = (if i < num_formats e then i else format_idx)
              in bind_res (formats_at e format_idx') (\<lambda>g. Inr (afbc g)))
           else Inr (afbc f)))"

definition is_android_yuv_format :: "gralloc_build \<Rightarrow> u64 \<Rightarrow> fault + bool" where
  "is_android_yuv_format e req_format_mapped =
     (let format_idx = scan_idx (\<lambda>f. ucast (fmt_id f) = req_format_mapped) (formats e)
      in bind_res (formats_at e format_idx) (\<lambda>f. Inr (is_yuv f)))"

definition is_afbc_format :: "gralloc_build \<Rightarrow> u64 \<Rightarrow> bool" where
  "is_afbc_format e internal_format =
     (internal_format AND CAPABILITY_AFBCENABLE_MASK (capability e) \<noteq> 0)"

definition is_subsampled_yuv :: "gralloc_build \<Rightarrow> u64 \<Rightarrow> bool" where
  "is_subsampled_yuv e base_format =
     (base_format \<in> fid e ` {INTERNAL_YV12, HAL_YCrCb_420_SP, INTERNAL_NV12, INTERNAL_NV21,
        HAL_YCbCr_422_I, INTERNAL_Y0L2, INTERNAL_P010, INTERNAL_P210, INTERNAL_Y210,
        INTERNAL_YUV422_8BIT, INTERNAL_YUV420_888, INTERNAL_YUV420_8BIT_I,
        INTERNAL_YUV420_10BIT_I, HAL_YCbCr_422_SP})"

definition is_yuv_format :: "gralloc_build \<Rightarrow> u64 \<Rightarrow> bool" where
  "is_yuv_format e base_format =
     (if base_format \<in> fid e ` {INTERNAL_Y8, INTERNAL_Y16, INTERNAL_Y410} then True
      else is_subsampled_yuv e base_format)"

text \<open>The argument is an \<open>int\<close>; the case labels are non-negative enumerators.\<close>

definition is_depth_or_stencil_format :: "gralloc_build \<Rightarrow> u32 \<Rightarrow> bool" where
  "is_depth_or_stencil_format e req_format =
     (if 28 \<le> PLATFORM_SDK_VERSION e
      then req_format \<in> ids e ` {INTERNAL_DEPTH_16, INTERNAL_DEPTH_24,
             INTERNAL_DEPTH_24_STENCIL_8, INTERNAL_DEPTH_32F,
             INTERNAL_DEPTH_32F_STENCIL_8, INTERNAL_STENCIL_8}
      else False)"

section \<open>Producer and consumer roles\<close>

definition determine_producer :: "u64 \<Rightarrow> bool \<times> mali_gralloc_producer_type" where
  "determine_producer usage =
     (if usage AND (GRALLOC_USAGE_SW_READ_MASK OR GRALLOC_USAGE_SW_WRITE_MASK) \<noteq> 0
      then (False, MALI_GRALLOC_PRODUCER_CPU)
      else if usage AND (GRALLOC_USAGE_HW_RENDER OR GRALLOC_USAGE_HW_COMPOSER OR GRALLOC_USAGE_HW_VIDEO_ENCODER)
                = (GRALLOC_USAGE_HW_RENDER OR GRALLOC_USAGE_HW_COMPOSER OR GRALLOC_USAGE_HW_VIDEO_ENCODER)
      then (True, MALI_GRALLOC_PRODUCER_GPU_OR_DISPLAY)
      else if usage AND GRALLOC_USAGE_HW_RENDER \<noteq> 0
      then (True, MALI_GRALLOC_PRODUCER_GPU)
      else if usage AND GRALLOC_USAGE_HW_CAMERA_MASK \<noteq> 0
      then (True, MALI_GRALLOC_PRODUCER_CAMERA)
      else if usage AND (GRALLOC_USAGE_HW_TEXTURE OR GRALLOC_USAGE_HW_COMPOSER OR GRALLOC_USAGE_EXTERNAL_DISP)
                = (GRALLOC_USAGE_HW_TEXTURE OR GRALLOC_USAGE_HW_COMPOSER OR GRALLOC_USAGE_EXTERNAL_DISP)
      then (True, MALI_GRALLOC_PRODUCER_VIDEO_DECODER)
      else if usage AND (GRALLOC_USAGE_HW_COMPOSER OR GRALLOC_USAGE_HW_VIDEO_ENCODER)
                = (GRALLOC_USAGE_HW_COMPOSER OR GRALLOC_USAGE_HW_VIDEO_ENCODER)
      then (True, MALI_GRALLOC_PRODUCER_DISPLAY)
      else if usage = GRALLOC_USAGE_HW_COMPOSER
      then (True, MALI_GRALLOC_PRODUCER_DISPLAY_AEU)
      else (True, MALI_GRALLOC_PRODUCER_UNKNOWN))"

definition determine_consumer :: "gralloc_build \<Rightarrow> u64 \<Rightarrow> bool \<times> mali_gralloc_consumer_type" where
  "determine_consumer e usage =
     (if usage AND (GRALLOC_USAGE_SW_READ_MASK OR GRALLOC_USAGE_SW_WRITE_MASK) \<noteq> 0
      then (False, MALI_GRALLOC_CONSUMER_CPU)
      else if usage AND GRALLOC_USAGE_HW_FB \<noteq> 0
      then (True, MALI_GRALLOC_CONSUMER_GPU_OR_DISPLAY)
      else if usage AND GRALLOC_USAGE_HW_VIDEO_ENCODER \<noteq> 0
      then (True, MALI_GRALLOC_CONSUMER_VIDEO_ENCODER)
      else if usage AND (GRALLOC_USAGE_HW_TEXTURE OR GRALLOC_USAGE_HW_COMPOSER)
                = (GRALLOC_USAGE_HW_TEXTURE OR GRALLOC_USAGE_HW_COMPOSER)
              \<and> dpu_runtime_caps e AND CAPABILITY_OPTIONS_PRESENT (capability e) \<noteq> 0
      then (True, MALI_GRALLOC_CONSUMER_GPU_OR_DISPLAY)
      else if usage AND GRALLOC_USAGE_HW_TEXTURE \<noteq> 0
      then (True, MALI_GRALLOC_CONSUMER_GPU_EXCL)
      else if usage = GRALLOC_USAGE_HW_COMPOSER
      then (True, MALI_GRALLOC_CONSUMER_DISPLAY_EXCL)
      else (True, MALI_GRALLOC_CONSUMER_UNKNOWN))"

section \<open>Fallback to a single-plane AFBC format\<close>

text \<open>
  The pointer argument \<open>format_idx\<close> becomes a returned index: the pair is the
  \<open>bool\<close> result and the value of \<open>*format_idx\<close> on return.
\<close>

definition convert_yuv_to_afbc_single_plane :: "gralloc_build \<Rightarrow> nat \<Rightarrow> fault + (bool \<times> nat)" where
  "convert_yuv_to_afbc_single_plane e format_idx =
     bind_res (formats_at e format_idx) (\<lambda>f.
       if \<not> is_yuv f then Inr (False, format_idx)
       else if npln f = 1 \<and> afbc f then Inr (True, format_idx)
       else
         (let i = scan_idx
                (\<lambda>g. npln g = 1 \<and> afbc g \<and> bps g = bps f \<and> hsub g = hsub f
                     \<and> vsub g = vsub f \<and> is_yuv g = is_yuv f \<and> comparable_components f g)
                (formats e)
          in if i < num_formats e then Inr (True, i) else Inr (False, format_idx)))"

text \<open>
  In the failure branch the source declares a new local, \<open>bool res = false;\<close>,
  which shadows the function's \<open>res\<close>; the binding \<open>res_inner\<close> below is that
  local, and the value returned is the outer \<open>res\<close>.
\<close>

definition afbc_format_fallback :: "gralloc_build \<Rightarrow> nat \<Rightarrow> u64 \<Rightarrow> bool \<Rightarrow> fault + (bool \<times> nat)" where
  "afbc_format_fallback e format_idx usage force =
     (let res = True;
          producer = snd (determine_producer usage);
          consumer = snd (determine_consumer e usage);
          producer_mp_support = (producer = MALI_GRALLOC_PRODUCER_UNKNOWN);
          consumer_mp_support = (consumer = MALI_GRALLOC_CONSUMER_UNKNOWN
                                 \<or> consumer = MALI_GRALLOC_CONSUMER_GPU_EXCL);
          is_multiplane_supported =
            (producer_mp_support \<and> consumer_mp_support
             \<and> gpu_runtime_caps e AND CAPABILITY_AFBC_MULTIPLANE_READ (capability e) \<noteq> 0)
      in if force \<or> \<not> is_multiplane_supported then
           bind_res (formats_at e format_idx) (\<lambda>f.
             if npln f > 1 \<or> \<not> afbc f then
               bind_res (convert_yuv_to_afbc_single_plane e format_idx) (\<lambda>(found, idx').
                 if found then Inr (res, idx')
                 else (let res_inner = False in Inr (res, idx')))
             else Inr (res, format_idx))
         else Inr (res, format_idx))"

section \<open>Allocation type\<close>

datatype AllocBaseType = UNCOMPRESSED | AFBC | AFBC_WIDEBLK | AFBC_EXTRAWIDEBLK

record alloc_type_t =
  primary_type :: AllocBaseType
  is_multi_plane :: bool
  is_tiled :: bool
  is_padded :: bool
  is_frontbuffer_safe :: bool


text \<open>
  \<open>get_alloc_type\<close> fills \<open>*alloc_type\<close> and returns a \<open>bool\<close>; the model returns
  both. The table is read at \<open>format_idx\<close>, which the caller has checked.
\<close>

definition get_alloc_type :: "gralloc_build \<Rightarrow> u64 \<Rightarrow> nat \<Rightarrow> u64 \<Rightarrow> fault + (bool \<times> alloc_type_t)" where
  "get_alloc_type e internal_format format_idx usage =
     bind_res (formats_at e format_idx) (\<lambda>f.
       let k = intfmt e;
           t0 = \<lparr>primary_type = UNCOMPRESSED, is_multi_plane = (npln f > 1), is_tiled = False,
                 is_padded = False, is_frontbuffer_safe = False\<rparr>
       in if internal_format AND INTFMT_AFBCENABLE_MASK k \<noteq> 0 then
            (let t1 = t0\<lparr>primary_type :=
                        (if internal_format AND INTFMT_AFBC_WIDEBLK k \<noteq> 0 then AFBC_WIDEBLK
                         else if internal_format AND INTFMT_AFBC_EXTRAWIDEBLK k \<noteq> 0 then AFBC_EXTRAWIDEBLK
                         else AFBC)\<rparr>;
                 t2 = (if internal_format AND INTFMT_AFBC_TILED_HEADERS k \<noteq> 0 then
                         (let a = t1\<lparr>is_tiled := True\<rparr>;
                              b = (if npln f > 1 \<and> internal_format AND INTFMT_AFBC_EXTRAWIDEBLK k = 0
                                   then a\<lparr>is_multi_plane := False\<rparr> else a)
                          in if internal_format AND INTFMT_AFBC_DOUBLE_BODY k \<noteq> 0
                             then b\<lparr>is_frontbuffer_safe := True\<rparr> else b)
                       else t1\<lparr>is_multi_plane := False\<rparr>)
             in if internal_format AND INTFMT_AFBC_EXTRAWIDEBLK k \<noteq> 0 \<and> \<not> is_tiled t2
                then Inr (False, t2)
                else if npln f = 1 \<and> internal_format AND INTFMT_AFBC_WIDEBLK k \<noteq> 0
                        \<and> internal_format AND INTFMT_AFBC_EXTRAWIDEBLK k \<noteq> 0
                then Inr (False, t2)
                else if usage AND MALI_GRALLOC_USAGE_AFBC_PADDING \<noteq> 0
                then Inr (True, t2\<lparr>is_padded := True\<rparr>)
                else Inr (True, t2))
          else Inr (True, t0))"

section \<open>A reference configuration\<close>

text \<open>
  Closed evaluations need one concrete build. \<open>std_build\<close> assigns the identifiers
  as the platform's pixel-format header does (the Mali-private ones from 0x100 on),
  places the modifier bits of the internal format from bit 32 on (the one position
  the sources spell out is AFBC basic, \<open>0x0000000100000000\<close>), and gives every
  capability its own bit. No universally quantified theorem below depends on it.
\<close>

fun std_ids :: "fmt_name \<Rightarrow> u32" where
  "std_ids INTERNAL_RGBA_8888 = 0x1"
| "std_ids INTERNAL_RGBX_8888 = 0x2"
| "std_ids INTERNAL_RGB_888 = 0x3"
| "std_ids INTERNAL_RGB_565 = 0x4"
| "std_ids INTERNAL_BGRA_8888 = 0x5"
| "std_ids INTERNAL_RGBA_1010102 = 0x2B"
| "std_ids INTERNAL_RGBA_16161616 = 0x16"
| "std_ids INTERNAL_Y8 = 0x20203859"
| "std_ids INTERNAL_Y16 = 0x20363159"
| "std_ids INTERNAL_YV12 = 0x32315659"
| "std_ids INTERNAL_YUV420_888 = 0x23"
| "std_ids INTERNAL_RAW16 = 0x20"
| "std_ids INTERNAL_RAW12 = 0x26"
| "std_ids INTERNAL_RAW10 = 0x25"
| "std_ids INTERNAL_BLOB = 0x21"
| "std_ids INTERNAL_NV12 = 0x100"
| "std_ids INTERNAL_NV21 = 0x101"
| "std_ids INTERNAL_YUV422_8BIT = 0x102"
| "std_ids INTERNAL_Y0L2 = 0x103"
| "std_ids INTERNAL_P010 = 0x104"
| "std_ids INTERNAL_P210 = 0x105"
| "std_ids INTERNAL_Y210 = 0x106"
| "std_ids INTERNAL_Y410 = 0x107"
| "std_ids INTERNAL_YUV420_8BIT_I = 0x108"
| "std_ids INTERNAL_YUV420_10BIT_I = 0x109"
| "std_ids INTERNAL_YUV444_10BIT_I = 0x10A"
| "std_ids INTERNAL_DEPTH_16 = 0x30"
| "std_ids INTERNAL_DEPTH_24 = 0x31"
| "std_ids INTERNAL_DEPTH_24_STENCIL_8 = 0x32"
| "std_ids INTERNAL_DEPTH_32F = 0x33"
| "std_ids INTERNAL_DEPTH_32F_STENCIL_8 = 0x34"
| "std_ids INTERNAL_STENCIL_8 = 0x35"
| "std_ids HAL_YCbCr_422_SP = 0x10"
| "std_ids HAL_YCrCb_420_SP = 0x11"
| "std_ids HAL_YCbCr_422_I = 0x14"
| "std_ids HAL_DEPTH_16 = 0x30"
| "std_ids HAL_DEPTH_24 = 0x31"
| "std_ids HAL_DEPTH_24_STENCIL_8 = 0x32"
| "std_ids HAL_DEPTH_32F = 0x33"
| "std_ids HAL_DEPTH_32F_STENCIL_8 = 0x34"
| "std_ids HAL_STENCIL_8 = 0x35"
| "std_ids HAL_IMPLEMENTATION_DEFINED = 0x22"
| "std_ids HAL_YCbCr_420_888 = 0x23"
| "std_ids HAL_YCbCr_422_888 = 0x27"
| "std_ids HAL_YCbCr_444_888 = 0x28"
| "std_ids HAL_YV12 = 0x32315659"

definition std_intfmt :: mali_intfmt where
  "std_intfmt = \<lparr>
     INTFMT_FMT_MASK = 0x00000000ffffffff,
     INTFMT_EXT_MASK = 0xffffffff00000000,
     INTFMT_AFBCENABLE_MASK = 0x0000000100000000,
     INTFMT_AFBC_BASIC = 0x0000000100000000,
     INTFMT_AFBC_SPLITBLK = 0x0000000200000000,
     INTFMT_AFBC_WIDEBLK = 0x0000000400000000,
     INTFMT_AFBC_TILED_HEADERS = 0x0000000800000000,
     INTFMT_AFBC_EXTRAWIDEBLK = 0x0000001000000000,
     INTFMT_AFBC_DOUBLE_BODY = 0x0000002000000000\<rparr>"

definition std_capability :: mali_capability where
  "std_capability = \<lparr>
     CAPABILITY_OPTIONS_PRESENT = 0x1,
     CAPABILITY_AFBC_BASIC = 0x2,
     CAPABILITY_AFBC_SPLITBLK = 0x4,
     CAPABILITY_AFBC_WIDEBLK = 0x8,
     CAPABILITY_AFBC_TILED_HEADERS = 0x80,
     CAPABILITY_AFBC_YUV_NOREAD = 0x20,
     CAPABILITY_AFBC_YUV_NOWRITE = 0x40,
     CAPABILITY_AFBCENABLE_MASK = 0x8E,
     CAPABILITY_AFBC_DOUBLE_BODY = 0x400,
     CAPABILITY_AFBC_MULTIPLANE_READ = 0x200,
     CAPABILITY_PIXFMT_RGBA1010102 = 0x10000,
     CAPABILITY_PIXFMT_RGBA16161616 = 0x20000\<rparr>"

fun std_producer_code :: "mali_gralloc_producer_type \<Rightarrow> int" where
  "std_producer_code MALI_GRALLOC_PRODUCER_UNKNOWN = 0"
| "std_producer_code MALI_GRALLOC_PRODUCER_CPU = 1"
| "std_producer_code MALI_GRALLOC_PRODUCER_GPU = 2"
| "std_producer_code MALI_GRALLOC_PRODUCER_GPU_OR_DISPLAY = 3"
| "std_producer_code MALI_GRALLOC_PRODUCER_DISPLAY = 4"
| "std_producer_code MALI_GRALLOC_PRODUCER_DISPLAY_AEU = 5"
| "std_producer_code MALI_GRALLOC_PRODUCER_VIDEO_DECODER = 6"
| "std_producer_code MALI_GRALLOC_PRODUCER_CAMERA = 7"

fun std_consumer_code :: "mali_gralloc_consumer_type \<Rightarrow> int" where
  "std_consumer_code MALI_GRALLOC_CONSUMER_UNKNOWN = 0"
| "std_consumer_code MALI_GRALLOC_CONSUMER_CPU = 1"
| "std_consumer_code MALI_GRALLOC_CONSUMER_GPU_OR_DISPLAY = 2"
| "std_consumer_code MALI_GRALLOC_CONSUMER_GPU_EXCL = 3"
| "std_consumer_code MALI_GRALLOC_CONSUMER_DISPLAY_EXCL = 4"
| "std_consumer_code MALI_GRALLOC_CONSUMER_VIDEO_ENCODER = 5"

text \<open>
  The reference build: SDK 28, no display size configured, assertions compiled
  out, 64-bit \<open>size_t\<close>, and a GPU that advertises AFBC basic with tiled headers.
\<close>

definition std_build :: gralloc_build where
  "std_build = \<lparr>
     intfmt = std_intfmt,
     capability = std_capability,
     ids = std_ids,
     PRIVATE_FORMAT_UNWRAP =
       (\<lambda>x. (ucast x AND 0xffff) OR push_bit 16 (ucast x AND 0xffff0000)),
     producer_code = std_producer_code,
     consumer_code = std_consumer_code,
     PLATFORM_SDK_VERSION = 28,
     MALI_DISPLAY_VERSION = 0,
     GRALLOC_DISP_W = 0,
     GRALLOC_DISP_H = 0,
     GRALLOC_INIT_AFBC = False,
     GRALLOC_USE_ION_COMPOUND_PAGE_HEAP = False,
     GRALLOC_USE_ION_DMA_HEAP = False,
     NDEBUG = True,
     LP64 = True,
     gpu_runtime_caps = 0x83,
     dpu_runtime_caps = 0x0,
     vpu_runtime_caps = 0x0,
     cam_runtime_caps = 0x0,
     sizeof_native_handle = 12,
     NUM_INTS_IN_PRIVATE_HANDLE = 44\<rparr>"


section \<open>Format selection\<close>

text \<open>
  \<open>map_flex_formats\<close> takes a 64-bit request and returns an \<open>int\<close>: the model
  returns the 32 bits of that \<open>int\<close>, and each caller widens them as the source
  does (sign extension into \<open>uint64_t\<close>).
\<close>

definition map_flex_formats :: "gralloc_build \<Rightarrow> u64 \<Rightarrow> u32" where
  "map_flex_formats e req_format =
     (let r1 = (if req_format = fid e HAL_IMPLEMENTATION_DEFINED
                   \<or> req_format = fid e HAL_YCbCr_420_888
                then fid e INTERNAL_NV12 else req_format);
          r2 = (if r1 = fid e INTERNAL_YUV422_8BIT then fid e HAL_YCbCr_422_I else r1)
      in ucast r2)"

definition apply_gpu_producer_limitations :: "gralloc_build \<Rightarrow> u64 \<Rightarrow> u64 \<Rightarrow> fault + u64" where
  "apply_gpu_producer_limitations e req_format_mapped producer_runtime_mask =
     bind_res (is_android_yuv_format e req_format_mapped) (\<lambda>yuv.
       if yuv then
         (if gpu_runtime_caps e AND CAPABILITY_AFBC_YUV_NOWRITE (capability e) \<noteq> 0
          then Inr (producer_runtime_mask AND NOT (CAPABILITY_AFBCENABLE_MASK (capability e)))
          else Inr (producer_runtime_mask
                    AND NOT (CAPABILITY_AFBC_SPLITBLK (capability e)
                             OR CAPABILITY_AFBC_WIDEBLK (capability e))))
       else Inr producer_runtime_mask)"

definition apply_video_consumer_limitations :: "gralloc_build \<Rightarrow> u64 \<Rightarrow> u64 \<Rightarrow> fault + u64" where
  "apply_video_consumer_limitations e req_format_mapped consumer_runtime_mask =
     bind_res (is_android_yuv_format e req_format_mapped) (\<lambda>yuv.
       if yuv then
         (if vpu_runtime_caps e AND CAPABILITY_AFBC_YUV_NOREAD (capability e) \<noteq> 0
          then Inr (consumer_runtime_mask AND NOT (CAPABILITY_AFBCENABLE_MASK (capability e)))
          else Inr consumer_runtime_mask)
       else Inr (consumer_runtime_mask AND NOT (CAPABILITY_AFBCENABLE_MASK (capability e))))"

text \<open>
  Signed 32-bit arithmetic: \<open>s32\<close> wraps an integer into the range of \<open>int\<close>, and
  \<open>tdiv\<close> is C's division, which truncates towards zero.
\<close>

definition s32 :: "int \<Rightarrow> int" where
  "s32 x = (x + 2 ^ 31) mod 2 ^ 32 - 2 ^ 31"

definition tdiv :: "int \<Rightarrow> int \<Rightarrow> int" where
  "tdiv a b = sgn a * sgn b * (\<bar>a\<bar> div \<bar>b\<bar>)"

definition GRALLOC_AFBC_MIN_SIZE :: int where "GRALLOC_AFBC_MIN_SIZE = 75"

definition apply_display_consumer_limitations ::
    "gralloc_build \<Rightarrow> u64 \<Rightarrow> int \<Rightarrow> u64 \<Rightarrow> fault + u64" where
  "apply_display_consumer_limitations e req_format_mapped buffer_size display_consumer_runtime_mask =
     bind_res
       (if MALI_DISPLAY_VERSION e = 550 \<or> MALI_DISPLAY_VERSION e = 650 then
          (if GRALLOC_DISP_W e \<noteq> 0 \<and> GRALLOC_DISP_H e \<noteq> 0 then
             (if s32 (GRALLOC_DISP_W e * GRALLOC_DISP_H e) = 0 then Inl DivisionByZero
              else Inr (tdiv (s32 (buffer_size * 100)) (s32 (GRALLOC_DISP_W e * GRALLOC_DISP_H e))
                          \<ge> GRALLOC_AFBC_MIN_SIZE))
           else Inr True)
        else Inr True)
       (\<lambda>afbc_allowed.
          if \<not> afbc_allowed
          then Inr (display_consumer_runtime_mask AND NOT (CAPABILITY_AFBCENABLE_MASK (capability e)))
          else bind_res (is_android_yuv_format e req_format_mapped) (\<lambda>yuv.
            if yuv
            then Inr ((display_consumer_runtime_mask AND NOT (CAPABILITY_AFBC_SPLITBLK (capability e)))
                      AND NOT (CAPABILITY_AFBC_WIDEBLK (capability e)))
            else if req_format_mapped = fid e INTERNAL_RGB_565
            then Inr (display_consumer_runtime_mask AND NOT (CAPABILITY_AFBC_SPLITBLK (capability e)))
            else Inr display_consumer_runtime_mask))"

text \<open>
  The blocks under \<open>#if PLATFORM_SDK_VERSION >= 26\<close> of \<open>determine_best_format\<close>
  all have one shape: the result becomes 0 when the request is RGBA_1010102
  (or else RGBA_16161616) and the masks at hand lack the matching pixel-format
  capability. \<open>has10\<close> and \<open>has16\<close> are the branch's tests of those capabilities.
\<close>

definition reject_unsupported :: "gralloc_build \<Rightarrow> u32 \<Rightarrow> bool \<Rightarrow> bool \<Rightarrow> u64 \<Rightarrow> u64" where
  "reject_unsupported e req_format has10 has16 internal_format =
     (if 26 \<le> PLATFORM_SDK_VERSION e then
        (if req_format = ids e INTERNAL_RGBA_1010102 \<and> \<not> has10 then 0
         else if req_format = ids e INTERNAL_RGBA_16161616 \<and> \<not> has16 then 0
         else internal_format)
      else internal_format)"

text \<open>\<open>if (cond) internal_format |= modifier;\<close>\<close>

definition set_if :: "bool \<Rightarrow> u64 \<Rightarrow> u64 \<Rightarrow> u64" where
  "set_if cond modifier internal_format =
     (if cond then internal_format OR modifier else internal_format)"

text \<open>
  \<open>determine_best_format(int req_format, ...)\<close>: the request arrives as an
  \<open>int\<close> and initialises the 64-bit \<open>internal_format\<close> by sign extension.
\<close>

definition determine_best_format ::
    "gralloc_build \<Rightarrow> u32 \<Rightarrow> mali_gralloc_producer_type \<Rightarrow> mali_gralloc_consumer_type
       \<Rightarrow> u64 \<Rightarrow> u64 \<Rightarrow> u64" where
  "determine_best_format e req_format producer consumer producer_runtime_mask consumer_runtime_mask =
     (let c = capability e; k = intfmt e;
          internal_format = (scast req_format :: u64);
          dpu_mask = dpu_runtime_caps e;
          gpu_mask = gpu_runtime_caps e;
          vpu_mask = vpu_runtime_caps e
      in
      if producer = MALI_GRALLOC_PRODUCER_UNKNOWN \<and> consumer = MALI_GRALLOC_CONSUMER_UNKNOWN
      then internal_format
      else if producer = MALI_GRALLOC_PRODUCER_UNKNOWN
              \<or> (producer = MALI_GRALLOC_PRODUCER_GPU
                  \<and> gpu_runtime_caps e AND CAPABILITY_OPTIONS_PRESENT c \<noteq> 0)
      then
        (let gpu_mask = gpu_mask AND producer_runtime_mask
         in if consumer = MALI_GRALLOC_CONSUMER_GPU_OR_DISPLAY then
              (let gpu_mask = gpu_mask AND consumer_runtime_mask;
                   dpu_mask = dpu_mask AND consumer_runtime_mask;
                   f1 = set_if (gpu_mask AND CAPABILITY_AFBC_BASIC c \<noteq> 0
                                \<and> dpu_mask AND CAPABILITY_AFBC_BASIC c \<noteq> 0)
                          (INTFMT_AFBC_BASIC k) internal_format;
                   f2 = set_if (gpu_mask AND CAPABILITY_AFBC_SPLITBLK c \<noteq> 0
                                \<and> dpu_mask AND CAPABILITY_AFBC_SPLITBLK c \<noteq> 0)
                          (INTFMT_AFBC_SPLITBLK k) f1;
                   f3 = set_if (gpu_mask AND CAPABILITY_AFBC_WIDEBLK c \<noteq> 0
                                \<and> dpu_mask AND CAPABILITY_AFBC_WIDEBLK c \<noteq> 0)
                          (INTFMT_AFBC_WIDEBLK k) f2;
                   f4 = set_if (gpu_mask AND CAPABILITY_AFBC_TILED_HEADERS c \<noteq> 0
                                \<and> dpu_mask AND CAPABILITY_AFBC_TILED_HEADERS c \<noteq> 0)
                          (INTFMT_AFBC_TILED_HEADERS k) f3
               in reject_unsupported e req_format
                    (gpu_mask AND CAPABILITY_PIXFMT_RGBA1010102 c \<noteq> 0)
                    (gpu_mask AND CAPABILITY_PIXFMT_RGBA16161616 c \<noteq> 0) f4)
            else if consumer = MALI_GRALLOC_CONSUMER_GPU_EXCL
                    \<or> consumer = MALI_GRALLOC_CONSUMER_UNKNOWN then
              (let gpu_mask = gpu_mask AND consumer_runtime_mask;
                   f1 = set_if (gpu_mask AND CAPABILITY_AFBC_BASIC c \<noteq> 0)
                          (INTFMT_AFBC_BASIC k) internal_format;
                   f2 = set_if (gpu_mask AND CAPABILITY_AFBC_TILED_HEADERS c \<noteq> 0)
                          (INTFMT_AFBC_TILED_HEADERS k) f1
               in reject_unsupported e req_format
                    (gpu_mask AND CAPABILITY_PIXFMT_RGBA1010102 c \<noteq> 0)
                    (gpu_mask AND CAPABILITY_PIXFMT_RGBA16161616 c \<noteq> 0) f2)
            else if consumer = MALI_GRALLOC_CONSUMER_VIDEO_ENCODER then
              (let vpu_mask = vpu_mask AND consumer_runtime_mask;
                   f2 = (if internal_format = fid e HAL_YV12 \<or> internal_format = fid e INTERNAL_NV12
                         then
                           set_if (gpu_mask AND CAPABILITY_AFBC_TILED_HEADERS c \<noteq> 0
                                   \<and> vpu_mask AND CAPABILITY_AFBC_TILED_HEADERS c \<noteq> 0)
                             (INTFMT_AFBC_TILED_HEADERS k)
                             (set_if (gpu_mask AND CAPABILITY_AFBC_BASIC c \<noteq> 0
                                      \<and> vpu_mask AND CAPABILITY_AFBC_BASIC c \<noteq> 0)
                                (INTFMT_AFBC_BASIC k) internal_format)
                         else internal_format)
               in reject_unsupported e req_format
                    (\<not> (gpu_mask AND CAPABILITY_PIXFMT_RGBA1010102 c = 0
                        \<or> vpu_mask AND CAPABILITY_PIXFMT_RGBA1010102 c = 0))
                    (\<not> (gpu_mask AND CAPABILITY_PIXFMT_RGBA16161616 c = 0
                        \<or> vpu_mask AND CAPABILITY_PIXFMT_RGBA16161616 c = 0)) f2)
            else internal_format)
      else if producer = MALI_GRALLOC_PRODUCER_VIDEO_DECODER
              \<and> vpu_runtime_caps e AND CAPABILITY_OPTIONS_PRESENT c \<noteq> 0
      then
        (let vpu_mask = vpu_mask AND producer_runtime_mask
         in if consumer = MALI_GRALLOC_CONSUMER_GPU_OR_DISPLAY then
              (let gpu_mask = gpu_mask AND consumer_runtime_mask;
                   dpu_mask = dpu_mask AND consumer_runtime_mask;
                   f2 = (if internal_format = fid e HAL_YV12 then
                           set_if (vpu_mask AND CAPABILITY_AFBC_TILED_HEADERS c \<noteq> 0
                                   \<and> gpu_mask AND CAPABILITY_AFBC_TILED_HEADERS c \<noteq> 0
                                   \<and> dpu_mask AND CAPABILITY_AFBC_TILED_HEADERS c \<noteq> 0)
                             (INTFMT_AFBC_TILED_HEADERS k)
                             (set_if (vpu_mask AND CAPABILITY_AFBC_BASIC c \<noteq> 0
                                      \<and> gpu_mask AND CAPABILITY_AFBC_BASIC c \<noteq> 0
                                      \<and> dpu_mask AND CAPABILITY_AFBC_BASIC c \<noteq> 0)
                                (INTFMT_AFBC_BASIC k) internal_format)
                         else internal_format)
               in reject_unsupported e req_format
                    (\<not> (vpu_mask AND CAPABILITY_PIXFMT_RGBA1010102 c = 0
                        \<or> gpu_mask AND CAPABILITY_PIXFMT_RGBA1010102 c = 0))
                    (\<not> (vpu_mask AND CAPABILITY_PIXFMT_RGBA16161616 c = 0
                        \<or> gpu_mask AND CAPABILITY_PIXFMT_RGBA16161616 c = 0)) f2)
            else if consumer = MALI_GRALLOC_CONSUMER_GPU_EXCL then
              (let gpu_mask = gpu_mask AND consumer_runtime_mask;
                   f2 = (if internal_format = fid e HAL_YV12 then
                           set_if (gpu_mask AND CAPABILITY_AFBC_TILED_HEADERS c \<noteq> 0
                                   \<and> vpu_mask AND CAPABILITY_AFBC_TILED_HEADERS c \<noteq> 0)
                             (INTFMT_AFBC_TILED_HEADERS k)
                             (set_if (gpu_mask AND CAPABILITY_AFBC_BASIC c \<noteq> 0
                                      \<and> vpu_mask AND CAPABILITY_AFBC_BASIC c \<noteq> 0)
                                (INTFMT_AFBC_BASIC k) internal_format)
                         else internal_format)
               in reject_unsupported e req_format
                    (\<not> (gpu_mask AND CAPABILITY_PIXFMT_RGBA1010102 c = 0
                        \<or> vpu_mask AND CAPABILITY_PIXFMT_RGBA1010102 c = 0))
                    (\<not> (gpu_mask AND CAPABILITY_PIXFMT_RGBA16161616 c = 0
                        \<or> vpu_mask AND CAPABILITY_PIXFMT_RGBA16161616 c = 0)) f2)
            else if consumer = MALI_GRALLOC_CONSUMER_VIDEO_ENCODER then
              reject_unsupported e req_format
                (vpu_mask AND CAPABILITY_PIXFMT_RGBA1010102 c \<noteq> 0)
                (vpu_mask AND CAPABILITY_PIXFMT_RGBA16161616 c \<noteq> 0) internal_format
            else internal_format)
      else if producer = MALI_GRALLOC_PRODUCER_CAMERA
              \<and> cam_runtime_caps e AND CAPABILITY_OPTIONS_PRESENT c \<noteq> 0
      then internal_format
      else if producer = MALI_GRALLOC_PRODUCER_DISPLAY_AEU
              \<and> consumer = MALI_GRALLOC_CONSUMER_DISPLAY_EXCL
              \<and> dpu_runtime_caps e AND CAPABILITY_OPTIONS_PRESENT c \<noteq> 0
      then
        (let dpu_mask = (dpu_mask AND producer_runtime_mask) AND consumer_runtime_mask
         in if dpu_mask AND CAPABILITY_AFBC_BASIC c \<noteq> 0
            then set_if (dpu_mask AND CAPABILITY_AFBC_TILED_HEADERS c \<noteq> 0)
                   (INTFMT_AFBC_TILED_HEADERS k) (internal_format OR INTFMT_AFBC_BASIC k)
            else internal_format)
      else internal_format)"

text \<open>
  The base formats \<open>decode_internal_format\<close> accepts (the labels of its
  \<open>switch\<close>, with the two blocks that depend on the SDK version).
\<close>

definition decodable_formats :: "gralloc_build \<Rightarrow> fmt_name list" where
  "decodable_formats e =
     [INTERNAL_RGBA_8888, INTERNAL_RGBX_8888, INTERNAL_RGB_888, INTERNAL_RGB_565,
      INTERNAL_BGRA_8888]
     @ (if 26 \<le> PLATFORM_SDK_VERSION e
        then [INTERNAL_RGBA_1010102, INTERNAL_RGBA_16161616] else [])
     @ [INTERNAL_YV12, INTERNAL_Y8, INTERNAL_Y16, INTERNAL_RAW16, INTERNAL_RAW12,
        INTERNAL_RAW10, INTERNAL_BLOB, INTERNAL_NV12, INTERNAL_NV21, INTERNAL_YUV422_8BIT,
        INTERNAL_Y0L2, INTERNAL_P010, INTERNAL_P210, INTERNAL_Y210, INTERNAL_Y410,
        HAL_YCbCr_422_I, HAL_YCrCb_420_SP, HAL_YCbCr_422_SP, INTERNAL_YUV420_8BIT_I,
        INTERNAL_YUV420_10BIT_I, INTERNAL_YUV444_10BIT_I]
     @ (if 28 \<le> PLATFORM_SDK_VERSION e
        then [INTERNAL_DEPTH_16, INTERNAL_DEPTH_24, INTERNAL_DEPTH_24_STENCIL_8,
              INTERNAL_DEPTH_32F, INTERNAL_DEPTH_32F_STENCIL_8, INTERNAL_STENCIL_8]
        else [])"

definition decode_internal_format :: "gralloc_build \<Rightarrow> u64 \<Rightarrow> mali_gralloc_format_type \<Rightarrow> u64" where
  "decode_internal_format e req_format type =
     (let internal_format =
            (case type of
               MALI_GRALLOC_FORMAT_TYPE_USAGE \<Rightarrow> PRIVATE_FORMAT_UNWRAP e (ucast req_format)
             | MALI_GRALLOC_FORMAT_TYPE_INTERNAL \<Rightarrow> req_format);
          base_format = internal_format AND INTFMT_FMT_MASK (intfmt e);
          mapped_base_format =
            (scast (map_flex_formats e (ucast (ucast base_format :: u32))) :: u64)
      in if mapped_base_format \<in> fid e ` set (decodable_formats e) then
           (if mapped_base_format \<noteq> base_format
            then (internal_format AND INTFMT_EXT_MASK (intfmt e)) OR mapped_base_format
            else internal_format)
         else 0)"

text \<open>
  The last test compares the consumer with \<open>MALI_GRALLOC_PRODUCER_UNKNOWN\<close>, an
  enumerator of the other enumeration: the comparison is between integer codes.
\<close>

definition validate_depth_stencil_usage ::
    "gralloc_build \<Rightarrow> u64 \<Rightarrow> mali_gralloc_producer_type \<Rightarrow> mali_gralloc_consumer_type \<Rightarrow> u64" where
  "validate_depth_stencil_usage e internal_format producer consumer =
     (if \<not> (producer = MALI_GRALLOC_PRODUCER_GPU \<or> producer = MALI_GRALLOC_PRODUCER_CPU
             \<or> producer = MALI_GRALLOC_PRODUCER_UNKNOWN)
         \<or> \<not> (consumer = MALI_GRALLOC_CONSUMER_GPU_EXCL \<or> consumer = MALI_GRALLOC_CONSUMER_CPU
                \<or> consumer = MALI_GRALLOC_CONSUMER_UNKNOWN)
         \<or> (producer = MALI_GRALLOC_PRODUCER_UNKNOWN
             \<and> consumer_code e consumer = producer_code e MALI_GRALLOC_PRODUCER_UNKNOWN)
      then 0 else internal_format)"

text \<open>
  The runtime masks after the usage-dependent narrowing (the \<open>if\<close> cascade on
  \<open>MALI_GRALLOC_USAGE_NO_AFBC\<close> of \<open>mali_gralloc_select_format\<close>). \<open>None\<close> is the
  early exit with result 0 for a YUV format requested together with NO_AFBC.
\<close>

definition runtime_masks ::
    "gralloc_build \<Rightarrow> u64 \<Rightarrow> u64 \<Rightarrow> int \<Rightarrow> mali_gralloc_producer_type \<Rightarrow> mali_gralloc_consumer_type
       \<Rightarrow> fault + (u64 \<times> u64) option" where
  "runtime_masks e usage req_format_mapped buffer_size producer consumer =
     (let producer_runtime_mask = (NOT 0 :: u64);
          consumer_runtime_mask = (NOT 0 :: u64);
          no_afbc = NOT (CAPABILITY_AFBCENABLE_MASK (capability e))
      in if usage AND MALI_GRALLOC_USAGE_NO_AFBC = MALI_GRALLOC_USAGE_NO_AFBC then
           bind_res (is_android_yuv_format e req_format_mapped) (\<lambda>yuv.
             if yuv then Inr None
             else Inr (Some (producer_runtime_mask AND no_afbc, consumer_runtime_mask AND no_afbc)))
         else
           bind_res (is_afbc_supported e (ucast req_format_mapped)) (\<lambda>supported.
             if \<not> supported
             then Inr (Some (producer_runtime_mask AND no_afbc, consumer_runtime_mask AND no_afbc))
             else
               bind_res
                 (if producer = MALI_GRALLOC_PRODUCER_GPU
                     \<or> producer = MALI_GRALLOC_PRODUCER_GPU_OR_DISPLAY
                  then apply_gpu_producer_limitations e req_format_mapped producer_runtime_mask
                  else Inr producer_runtime_mask)
                 (\<lambda>pm.
                    bind_res
                      (if consumer = MALI_GRALLOC_CONSUMER_VIDEO_ENCODER
                       then apply_video_consumer_limitations e req_format_mapped consumer_runtime_mask
                       else if consumer = MALI_GRALLOC_CONSUMER_GPU_OR_DISPLAY
                               \<or> consumer = MALI_GRALLOC_CONSUMER_DISPLAY_EXCL
                       then apply_display_consumer_limitations e req_format_mapped buffer_size
                              consumer_runtime_mask
                       else Inr consumer_runtime_mask)
                      (\<lambda>cm. Inr (Some (pm, cm))))))"

text \<open>
  The front-buffer block at the end of \<open>mali_gralloc_select_format\<close>, entered
  when the usage carries \<open>MALI_GRALLOC_USAGE_FRONTBUFFER\<close>.
\<close>

definition frontbuffer_format ::
    "gralloc_build \<Rightarrow> mali_gralloc_producer_type \<Rightarrow> mali_gralloc_consumer_type \<Rightarrow> u64 \<Rightarrow> u64" where
  "frontbuffer_format e producer consumer internal_format =
     (let k = intfmt e;
          f1 = (if (producer = MALI_GRALLOC_PRODUCER_UNKNOWN \<or> producer = MALI_GRALLOC_PRODUCER_GPU)
                   \<and> (consumer = MALI_GRALLOC_CONSUMER_UNKNOWN
                       \<or> consumer = MALI_GRALLOC_CONSUMER_GPU_EXCL)
                   \<and> gpu_runtime_caps e AND CAPABILITY_AFBC_DOUBLE_BODY (capability e) \<noteq> 0
                   \<and> internal_format AND INTFMT_AFBC_BASIC k \<noteq> 0
                   \<and> internal_format AND INTFMT_AFBC_TILED_HEADERS k \<noteq> 0
                then ((internal_format OR INTFMT_AFBC_DOUBLE_BODY k)
                        AND NOT (INTFMT_AFBC_WIDEBLK k)) AND NOT (INTFMT_AFBC_EXTRAWIDEBLK k)
                else internal_format)
      in if f1 AND INTFMT_AFBC_DOUBLE_BODY k = 0 then f1 AND INTFMT_FMT_MASK k else f1)"

text \<open>
  \<open>mali_gralloc_select_format\<close>. \<open>buffer_size\<close> is the \<open>int\<close> the caller passes
  (the product of the requested dimensions).
\<close>

definition mali_gralloc_select_format ::
    "gralloc_build \<Rightarrow> u64 \<Rightarrow> mali_gralloc_format_type \<Rightarrow> u64 \<Rightarrow> int \<Rightarrow> fault + u64" where
  "mali_gralloc_select_format e req_format type usage buffer_size =
     (if usage AND MALI_GRALLOC_USAGE_PRIVATE_FORMAT \<noteq> 0 \<or> type = MALI_GRALLOC_FORMAT_TYPE_INTERNAL
      then Inr (decode_internal_format e req_format type)
      else
        (let req_format_mapped =
               (scast (map_flex_formats e (req_format AND INTFMT_FMT_MASK (intfmt e))) :: u64);
             producer = snd (determine_producer usage);
             consumer = snd (determine_consumer e usage)
         in if \<not> fst (determine_producer usage) \<or> \<not> fst (determine_consumer e usage)
            then Inr req_format_mapped
            else
              bind_res (runtime_masks e usage req_format_mapped buffer_size producer consumer)
                (\<lambda>masks. case masks of
                   None \<Rightarrow> Inr 0
                 | Some (producer_runtime_mask, consumer_runtime_mask) \<Rightarrow>
                     (let f1 = determine_best_format e (ucast req_format_mapped) producer consumer
                                 producer_runtime_mask consumer_runtime_mask;
                          f2 = (if req_format_mapped \<in> fid e ` {INTERNAL_RAW10, INTERNAL_RAW12,
                                     INTERNAL_RAW16, INTERNAL_Y8, INTERNAL_Y16}
                                   \<and> ((producer \<noteq> MALI_GRALLOC_PRODUCER_CPU
                                        \<and> producer \<noteq> MALI_GRALLOC_PRODUCER_CAMERA
                                        \<and> producer \<noteq> MALI_GRALLOC_PRODUCER_UNKNOWN)
                                       \<or> (consumer \<noteq> MALI_GRALLOC_CONSUMER_CPU
                                           \<and> consumer \<noteq> MALI_GRALLOC_CONSUMER_UNKNOWN))
                                then 0 else f1);
                          f3 = (if is_depth_or_stencil_format e (ucast req_format_mapped)
                                then validate_depth_stencil_usage e f2 producer consumer
                                else f2)
                      in if usage AND MALI_GRALLOC_USAGE_FRONTBUFFER \<noteq> 0
                         then Inr (frontbuffer_format e producer consumer f3)
                         else Inr f3))))"

text \<open>
  The statements of \<open>mali_gralloc_select_format\<close> between the decoding of
  private formats and the front-buffer block, for a request that is not
  decoded: the value of \<open>internal_format\<close> on entry to the front-buffer block,
  or the value with which one of the two \<open>goto out\<close> of that part leaves the
  function (the mapped format for a CPU producer or consumer, 0 for a YUV
  format with NO_AFBC).
\<close>

definition usage_internal_format :: "gralloc_build \<Rightarrow> u64 \<Rightarrow> u64 \<Rightarrow> int \<Rightarrow> fault + u64" where
  "usage_internal_format e req_format usage buffer_size =
     (let req_format_mapped =
            (scast (map_flex_formats e (req_format AND INTFMT_FMT_MASK (intfmt e))) :: u64);
          producer = snd (determine_producer usage);
          consumer = snd (determine_consumer e usage)
      in if \<not> fst (determine_producer usage) \<or> \<not> fst (determine_consumer e usage)
         then Inr req_format_mapped
         else
           bind_res (runtime_masks e usage req_format_mapped buffer_size producer consumer)
             (\<lambda>masks. case masks of
                None \<Rightarrow> Inr 0
              | Some (producer_runtime_mask, consumer_runtime_mask) \<Rightarrow>
                  (let f1 = determine_best_format e (ucast req_format_mapped) producer consumer
                              producer_runtime_mask consumer_runtime_mask;
                       f2 = (if req_format_mapped \<in> fid e ` {INTERNAL_RAW10, INTERNAL_RAW12,
                                  INTERNAL_RAW16, INTERNAL_Y8, INTERNAL_Y16}
                                \<and> ((producer \<noteq> MALI_GRALLOC_PRODUCER_CPU
                                     \<and> producer \<noteq> MALI_GRALLOC_PRODUCER_CAMERA
                                     \<and> producer \<noteq> MALI_GRALLOC_PRODUCER_UNKNOWN)
                                    \<or> (consumer \<noteq> MALI_GRALLOC_CONSUMER_CPU
                                        \<and> consumer \<noteq> MALI_GRALLOC_CONSUMER_UNKNOWN))
                             then 0 else f1);
                       f3 = (if is_depth_or_stencil_format e (ucast req_format_mapped)
                             then validate_depth_stencil_usage e f2 producer consumer
                             else f2)
                   in Inr f3)))"

section \<open>Buffer handles\<close>

text \<open>
  \<open>plane_info_t\<close> and \<open>private_handle_t\<close> (mali_gralloc_buffer.h). The three
  fields of the base \<open>native_handle\<close> come first. Pointers are addresses, 0 for
  \<open>NULL\<close>. The array \<open>plane_info[MAX_PLANES]\<close> is a list of three entries. The
  handle's own deprecated \<open>byte_stride\<close>, its \<open>size\<close> and its framebuffer
  \<open>offset\<close> are renamed, their names being taken by the plane record and by HOL.
\<close>

record plane_info_t =
  offset :: nat
  byte_stride :: nat
  alloc_width :: nat
  alloc_height :: nat

record private_handle_t =
  version :: int
  numFds :: int
  numInts :: int
  share_fd :: int
  share_attr_fd :: int
  magic :: int
  flags :: u32
  width :: int
  height :: int
  req_format :: int
  producer_usage :: u64
  consumer_usage :: u64
  internal_format :: u64
  stride :: int
  hnd_byte_stride :: int
  internalWidth :: int
  internalHeight :: int
  alloc_format :: u64
  plane_info :: "plane_info_t list"
  hnd_size :: int
  layer_count :: nat
  base :: nat
  backing_store_id :: u64
  backing_store_size :: int
  writeOwner :: int
  allocating_pid :: int
  remote_pid :: int
  ref_count :: int
  attr_base :: nat
  yuv_info :: nat
  fd :: int
  fb_offset :: int
  min_pgsz :: int

definition PRIV_FLAGS_FRAMEBUFFER :: u32 where "PRIV_FLAGS_FRAMEBUFFER = 0x00000001"
definition PRIV_FLAGS_USES_ION_COMPOUND_HEAP :: u32 where "PRIV_FLAGS_USES_ION_COMPOUND_HEAP = 0x00000002"
definition PRIV_FLAGS_USES_ION :: u32 where "PRIV_FLAGS_USES_ION = 0x00000004"
definition PRIV_FLAGS_USES_ION_DMA_HEAP :: u32 where "PRIV_FLAGS_USES_ION_DMA_HEAP = 0x00000008"

definition sNumFds :: int where "sNumFds = 2"
definition sMagic :: int where "sMagic = 0x3141592"

definition EINVAL :: int where "EINVAL = 22"
definition GRALLOC1_ERROR_NONE :: int where "GRALLOC1_ERROR_NONE = 0"
definition GRALLOC1_ERROR_UNSUPPORTED :: int where "GRALLOC1_ERROR_UNSUPPORTED = 7"

text \<open>A \<open>buffer_handle_t\<close> is a pointer to a handle: \<open>None\<close> is \<open>NULL\<close>.\<close>

definition validate :: "gralloc_build \<Rightarrow> private_handle_t option \<Rightarrow> int" where
  "validate e h =
     (case h of
        None \<Rightarrow> - EINVAL
      | Some hnd \<Rightarrow>
          if version hnd \<noteq> sizeof_native_handle e
             \<or> numInts hnd \<noteq> NUM_INTS_IN_PRIVATE_HANDLE e
             \<or> numFds hnd \<noteq> sNumFds \<or> magic hnd \<noteq> sMagic
          then - EINVAL else 0)"

definition is_multi_plane_hnd :: "private_handle_t \<Rightarrow> bool" where
  "is_multi_plane_hnd hnd = (byte_stride (plane_info hnd ! 1) \<noteq> 0)"

section \<open>Buffer access\<close>

text \<open>
  The functions of mali_gralloc_bufferaccess.cpp as they are compiled for the
  gralloc1 interface (\<open>GRALLOC_USE_GRALLOC1_API == 1\<close>) without the legacy
  lock (\<open>GRALLOC_USE_LEGACY_LOCK != 1\<close>).

  \<open>validate_lock_input_parameters\<close>. \<open>lock_pid\<close> is the value of \<open>getpid()\<close>. The
  sums \<open>l + w\<close> and \<open>t + h\<close> are \<open>int\<close> additions, wrapped here as the overflow
  test of the source expects. The function reads the handle without a test of
  the pointer.
\<close>

definition validate_lock_input_parameters ::
    "gralloc_build \<Rightarrow> int \<Rightarrow> private_handle_t option \<Rightarrow> int \<Rightarrow> int \<Rightarrow> int \<Rightarrow> int \<Rightarrow> u64
       \<Rightarrow> fault + int" where
  "validate_lock_input_parameters e lock_pid buffer l t w h usage =
     (if l < 0 \<or> t < 0 \<or> w < 0 \<or> h < 0 then Inr (- EINVAL)
      else if s32 (l + w) < 0 \<or> s32 (t + h) < 0 then Inr (- EINVAL)
      else
        (case buffer of
           None \<Rightarrow> Inl NullPointer
         | Some hnd \<Rightarrow>
             if s32 (t + h) > height hnd \<or> s32 (l + w) > width hnd then Inr (- EINVAL)
             else
               (let is_registered_process =
                      (allocating_pid hnd = lock_pid \<or> remote_pid hnd = lock_pid)
                in if \<not> is_registered_process \<or> base hnd = 0 then Inr (- EINVAL)
                   else if alloc_format hnd AND INTFMT_EXT_MASK (intfmt e) \<noteq> 0
                   then Inr GRALLOC1_ERROR_UNSUPPORTED
                   else Inr 0)))"

text \<open>The identifier of a format as the \<open>int\<close> that \<open>req_format\<close> holds.\<close>

definition fid_int :: "gralloc_build \<Rightarrow> fmt_name \<Rightarrow> int" where
  "fid_int e n = uint (ids e n)"

text \<open>\<open>hnd->writeOwner = usage & GRALLOC_USAGE_SW_WRITE_MASK\<close>, for ION buffers.\<close>

definition set_write_owner :: "u64 \<Rightarrow> private_handle_t \<Rightarrow> private_handle_t" where
  "set_write_owner usage hnd =
     (if flags hnd AND PRIV_FLAGS_USES_ION \<noteq> 0
      then hnd\<lparr>writeOwner := uint (usage AND GRALLOC_USAGE_SW_WRITE_MASK)\<rparr>
      else hnd)"

text \<open>
  \<open>mali_gralloc_lock\<close>. The out-parameter \<open>vaddr\<close> is \<open>None\<close> for a null pointer
  and \<open>Some v\<close> for a cell holding \<open>v\<close>. The result is the status, the handle
  as the call leaves it, and the cell as the call leaves it.
\<close>

definition mali_gralloc_lock ::
    "gralloc_build \<Rightarrow> int \<Rightarrow> private_handle_t option \<Rightarrow> u64 \<Rightarrow> int \<Rightarrow> int \<Rightarrow> int \<Rightarrow> int
       \<Rightarrow> nat option \<Rightarrow> fault + (int \<times> private_handle_t option \<times> nat option)" where
  "mali_gralloc_lock e lock_pid buffer usage l t w h vaddr =
     (if validate e buffer < 0 then Inr (- EINVAL, buffer, vaddr)
      else
        bind_res (validate_lock_input_parameters e lock_pid buffer l t w h usage) (\<lambda>status.
          if status \<noteq> 0 then Inr (status, buffer, vaddr)
          else
            (case buffer of
               None \<Rightarrow> Inl NullPointer
             | Some hnd \<Rightarrow>
                 if req_format hnd = fid_int e HAL_YCbCr_420_888
                    \<or> req_format hnd = fid_int e HAL_YCbCr_422_888
                    \<or> req_format hnd = fid_int e HAL_YCbCr_444_888
                 then Inr (- EINVAL, buffer, vaddr)
                 else if get_format_index e (alloc_format hnd AND INTFMT_FMT_MASK (intfmt e)) = - 1
                 then Inr (- EINVAL, buffer, vaddr)
                 else
                   (let hnd1 = set_write_owner usage hnd
                    in if usage AND (GRALLOC_USAGE_SW_READ_MASK OR GRALLOC_USAGE_SW_WRITE_MASK) \<noteq> 0
                       then (case vaddr of
                               None \<Rightarrow> Inr (- EINVAL, Some (hnd1\<lparr>writeOwner := 0\<rparr>), None)
                             | Some v \<Rightarrow> Inr (0, Some hnd1, Some (base hnd1)))
                       else Inr (0, Some hnd1, vaddr)))))"

record android_ycbcr =
  y :: nat
  cb :: nat
  cr :: nat
  ystride :: nat
  cstride :: nat
  chroma_step :: nat
  reserved :: "nat list"

definition mali_gralloc_lock_ycbcr ::
    "gralloc_build \<Rightarrow> int \<Rightarrow> private_handle_t option \<Rightarrow> u64 \<Rightarrow> int \<Rightarrow> int \<Rightarrow> int \<Rightarrow> int
       \<Rightarrow> android_ycbcr option
       \<Rightarrow> fault + (int \<times> private_handle_t option \<times> android_ycbcr option)" where
  "mali_gralloc_lock_ycbcr e lock_pid buffer usage l t w h ycbcr =
     (if validate e buffer < 0 then Inr (- EINVAL, buffer, ycbcr)
      else
        (case buffer of
           None \<Rightarrow> Inl NullPointer
         | Some hnd \<Rightarrow>
             (let base_format = alloc_format hnd AND INTFMT_FMT_MASK (intfmt e)
              in bind_res (validate_lock_input_parameters e lock_pid buffer l t w h usage) (\<lambda>status.
                   if status \<noteq> 0 then Inr (status, buffer, ycbcr)
                   else if get_format_index e base_format = - 1 then Inr (- EINVAL, buffer, ycbcr)
                   else
                     bind_res (formats_at e (nat (get_format_index e base_format))) (\<lambda>f.
                       if \<not> is_yuv f then Inr (- EINVAL, buffer, ycbcr)
                       else
                         (let hnd1 = set_write_owner usage hnd;
                              p1 = plane_info hnd1 ! 1;
                              p2 = plane_info hnd1 ! 2
                          in if usage AND (GRALLOC_USAGE_SW_READ_MASK OR GRALLOC_USAGE_SW_WRITE_MASK) \<noteq> 0
                             then
                               (case ycbcr of
                                  None \<Rightarrow> Inr (- EINVAL, Some hnd1, None)
                                | Some yc \<Rightarrow>
                                    (let yc1 = yc\<lparr>y := base hnd1,
                                                   ystride := byte_stride (plane_info hnd1 ! 0)\<rparr>
                                     in if base_format = fid e INTERNAL_Y8 \<or> base_format = fid e INTERNAL_Y16
                                        then Inr (0, Some hnd1,
                                               Some (yc1\<lparr>cstride := 0, cb := 0, cr := 0, chroma_step := 0,
                                                         reserved := replicate (length (reserved yc)) 0\<rparr>))
                                        else if base_format = fid e INTERNAL_NV12
                                        then Inr (0, Some hnd1,
                                               Some (yc1\<lparr>cstride := byte_stride p1,
                                                         cb := base hnd1 + offset p1,
                                                         cr := base hnd1 + offset p1 + 1,
                                                         chroma_step := 2,
                                                         reserved := replicate (length (reserved yc)) 0\<rparr>))
                                        else if base_format = fid e HAL_YCrCb_420_SP
                                                \<or> base_format = fid e INTERNAL_NV21
                                        then Inr (0, Some hnd1,
                                               Some (yc1\<lparr>cstride := byte_stride p1,
                                                         cr := base hnd1 + offset p1,
                                                         cb := base hnd1 + offset p1 + 1,
                                                         chroma_step := 2,
                                                         reserved := replicate (length (reserved yc)) 0\<rparr>))
                                        else if base_format = fid e INTERNAL_YV12
                                        then Inr (0, Some hnd1,
                                               Some (yc1\<lparr>cstride := byte_stride p1,
                                                         cr := base hnd1 + offset p1,
                                                         cb := base hnd1 + offset p2,
                                                         chroma_step := 1,
                                                         reserved := replicate (length (reserved yc)) 0\<rparr>))
                                        else Inr (- EINVAL, Some hnd1, Some yc1)))
                             else
                               (case ycbcr of
                                  None \<Rightarrow> Inl NullPointer
                                | Some yc \<Rightarrow>
                                    Inr (0, Some hnd1,
                                      Some (yc\<lparr>y := 0, cb := 0, cr := 0, ystride := 0, cstride := 0,
                                               chroma_step := 0,
                                               reserved := replicate (length (reserved yc)) 0\<rparr>)))))))))"

text \<open>
  The asynchronous variants first wait for the fence and close it. The two
  calls are effects outside the allocator; the model returns them as a list.
\<close>

datatype fence_effect = SyncWait int | CloseFd int

definition wait_fence :: "int \<Rightarrow> fence_effect list" where
  "wait_fence fence_fd = (if fence_fd \<ge> 0 then [SyncWait fence_fd, CloseFd fence_fd] else [])"

definition mali_gralloc_lock_async ::
    "gralloc_build \<Rightarrow> int \<Rightarrow> private_handle_t option \<Rightarrow> u64 \<Rightarrow> int \<Rightarrow> int \<Rightarrow> int \<Rightarrow> int
       \<Rightarrow> nat option \<Rightarrow> int
       \<Rightarrow> fence_effect list \<times> (fault + (int \<times> private_handle_t option \<times> nat option))" where
  "mali_gralloc_lock_async e lock_pid buffer usage l t w h vaddr fence_fd =
     (wait_fence fence_fd, mali_gralloc_lock e lock_pid buffer usage l t w h vaddr)"

definition mali_gralloc_lock_ycbcr_async ::
    "gralloc_build \<Rightarrow> int \<Rightarrow> private_handle_t option \<Rightarrow> u64 \<Rightarrow> int \<Rightarrow> int \<Rightarrow> int \<Rightarrow> int
       \<Rightarrow> android_ycbcr option \<Rightarrow> int
       \<Rightarrow> fence_effect list \<times> (fault + (int \<times> private_handle_t option \<times> android_ycbcr option))" where
  "mali_gralloc_lock_ycbcr_async e lock_pid buffer usage l t w h ycbcr fence_fd =
     (wait_fence fence_fd, mali_gralloc_lock_ycbcr e lock_pid buffer usage l t w h ycbcr)"

text \<open>The platform's flex layout (system/graphics.h).\<close>

datatype android_flex_component =
  FLEX_COMPONENT_Y | FLEX_COMPONENT_Cb | FLEX_COMPONENT_Cr
| FLEX_COMPONENT_R | FLEX_COMPONENT_G | FLEX_COMPONENT_B | FLEX_COMPONENT_A

datatype android_flex_format =
  FLEX_FORMAT_INVALID | FLEX_FORMAT_Y | FLEX_FORMAT_YCbCr | FLEX_FORMAT_YCbCrA
| FLEX_FORMAT_RGB | FLEX_FORMAT_RGBA

record android_flex_plane =
  top_left :: nat
  component :: android_flex_component
  bits_per_component :: int
  bits_used :: int
  h_increment :: int
  v_increment :: int
  h_subsampling :: int
  v_subsampling :: int

record android_flex_layout =
  flex_format :: android_flex_format
  num_planes :: nat
  planes :: "android_flex_plane list"

definition set_flex_plane_params ::
    "nat \<Rightarrow> android_flex_component \<Rightarrow> int \<Rightarrow> int \<Rightarrow> int \<Rightarrow> int \<Rightarrow> int \<Rightarrow> int
       \<Rightarrow> android_flex_plane" where
  "set_flex_plane_params topleft cmpnt bpc used h_inc v_inc h_sub v_sub =
     \<lparr>top_left = topleft, component = cmpnt, bits_per_component = bpc, bits_used = used,
      h_increment = h_inc, v_increment = v_inc, h_subsampling = h_sub, v_subsampling = v_sub\<rparr>"

text \<open>
  The writes \<open>set_flex_plane_params(..., &flex_layout->planes[i])\<close> of one case of
  the \<open>switch\<close>, in the order of the source; the array \<open>planes\<close> belongs to the
  caller, and a write past its end is a fault.
\<close>

primrec put_planes ::
    "(nat \<times> android_flex_plane) list \<Rightarrow> android_flex_layout \<Rightarrow> fault + android_flex_layout" where
  "put_planes [] lay = Inr lay"
| "put_planes (ip # rest) lay =
     (if fst ip < length (planes lay)
      then put_planes rest (lay\<lparr>planes := (planes lay)[fst ip := snd ip]\<rparr>)
      else Inl OutOfBounds)"

definition flex_planes ::
    "gralloc_build \<Rightarrow> private_handle_t \<Rightarrow> u64
       \<Rightarrow> (android_flex_format \<times> (nat \<times> android_flex_plane) list) option" where
  "flex_planes e hnd base_format =
     (let b = base hnd;
          s0 = int (byte_stride (plane_info hnd ! 0));
          s1 = int (byte_stride (plane_info hnd ! 1));
          s2 = int (byte_stride (plane_info hnd ! 2));
          o1 = offset (plane_info hnd ! 1);
          o2 = offset (plane_info hnd ! 2);
          P = set_flex_plane_params
      in
      if base_format = fid e INTERNAL_Y8 then
        Some (FLEX_FORMAT_Y, [(0, P b FLEX_COMPONENT_Y 8 8 1 s0 1 1)])
      else if base_format = fid e INTERNAL_Y16 then
        Some (FLEX_FORMAT_Y, [(0, P b FLEX_COMPONENT_Y 16 16 2 s0 1 1)])
      else if base_format = fid e INTERNAL_NV12 then
        Some (FLEX_FORMAT_YCbCr,
          [(0, P b FLEX_COMPONENT_Y 8 8 1 s0 1 1),
           (1, P (b + o1) FLEX_COMPONENT_Cb 8 8 2 s1 2 2),
           (2, P (b + o1 + 1) FLEX_COMPONENT_Cr 8 8 2 s1 2 2)])
      else if base_format = fid e HAL_YCrCb_420_SP \<or> base_format = fid e INTERNAL_NV21 then
        Some (FLEX_FORMAT_YCbCr,
          [(0, P b FLEX_COMPONENT_Y 8 8 1 s0 1 1),
           (1, P (b + o1 + 1) FLEX_COMPONENT_Cb 8 8 2 s1 2 2),
           (2, P (b + o1) FLEX_COMPONENT_Cr 8 8 2 s1 2 2)])
      else if base_format = fid e INTERNAL_YV12 then
        Some (FLEX_FORMAT_YCbCr,
          [(0, P b FLEX_COMPONENT_Y 8 8 1 s0 1 1),
           (1, P (b + o2) FLEX_COMPONENT_Cb 8 8 1 s2 2 2),
           (2, P (b + o1) FLEX_COMPONENT_Cr 8 8 1 s1 2 2)])
      else if base_format = fid e INTERNAL_P010 then
        Some (FLEX_FORMAT_YCbCr,
          [(0, P b FLEX_COMPONENT_Y 16 10 2 s0 1 1),
           (1, P (b + o1) FLEX_COMPONENT_Cb 16 10 4 s1 2 2),
           (2, P (b + o1 + 2) FLEX_COMPONENT_Cr 16 10 4 s1 2 2)])
      else if base_format = fid e INTERNAL_P210 then
        Some (FLEX_FORMAT_YCbCr,
          [(0, P b FLEX_COMPONENT_Y 16 10 2 s0 1 1),
           (1, P (b + o1) FLEX_COMPONENT_Cb 16 10 4 s1 2 1),
           (2, P (b + o1 + 2) FLEX_COMPONENT_Cr 16 10 4 s1 2 1)])
      else if base_format = fid e HAL_YCbCr_422_I then
        Some (FLEX_FORMAT_YCbCr,
          [(0, P b FLEX_COMPONENT_Y 8 8 2 s0 1 1),
           (1, P (b + 1) FLEX_COMPONENT_Cb 8 8 4 s0 2 1),
           (2, P (b + 3) FLEX_COMPONENT_Cr 8 8 4 s0 2 1)])
      else if base_format = fid e HAL_YCbCr_422_SP then
        Some (FLEX_FORMAT_YCbCr,
          [(0, P b FLEX_COMPONENT_Y 8 8 1 s0 1 1),
           (1, P (b + o1) FLEX_COMPONENT_Cb 8 8 2 s1 2 1),
           (2, P (b + o1 + 1) FLEX_COMPONENT_Cr 8 8 2 s1 2 1)])
      else if base_format = fid e INTERNAL_Y210 then
        Some (FLEX_FORMAT_YCbCr,
          [(0, P b FLEX_COMPONENT_Y 16 10 4 s0 1 1),
           (1, P (b + 2) FLEX_COMPONENT_Cb 16 10 8 s0 2 1),
           (2, P (b + 6) FLEX_COMPONENT_Cr 16 10 8 s0 2 1)])
      else if 26 \<le> PLATFORM_SDK_VERSION e \<and> base_format = fid e INTERNAL_RGBA_16161616 then
        Some (FLEX_FORMAT_RGBA,
          [(0, P b FLEX_COMPONENT_R 16 16 8 s0 1 1),
           (1, P (b + 2) FLEX_COMPONENT_G 16 16 8 s0 1 1),
           (2, P (b + 4) FLEX_COMPONENT_B 16 16 8 s0 1 1),
           (3, P (b + 6) FLEX_COMPONENT_A 16 16 8 s0 1 1)])
      else if base_format = fid e INTERNAL_RGBA_8888 then
        Some (FLEX_FORMAT_RGBA,
          [(0, P b FLEX_COMPONENT_R 8 8 4 s0 1 1),
           (1, P (b + 1) FLEX_COMPONENT_G 8 8 4 s0 1 1),
           (2, P (b + 2) FLEX_COMPONENT_B 8 8 4 s0 1 1),
           (3, P (b + 3) FLEX_COMPONENT_A 8 8 4 s0 1 1)])
      else if base_format = fid e INTERNAL_RGBX_8888 then
        Some (FLEX_FORMAT_RGB,
          [(0, P b FLEX_COMPONENT_R 8 8 4 s0 1 1),
           (1, P (b + 1) FLEX_COMPONENT_G 8 8 4 s0 1 1),
           (2, P (b + 2) FLEX_COMPONENT_B 8 8 4 s0 1 1)])
      else if base_format = fid e INTERNAL_RGB_888 then
        Some (FLEX_FORMAT_RGB,
          [(0, P b FLEX_COMPONENT_R 8 8 3 s0 1 1),
           (1, P (b + 1) FLEX_COMPONENT_G 8 8 3 s0 1 1),
           (2, P (b + 2) FLEX_COMPONENT_B 8 8 3 s0 1 1)])
      else if base_format = fid e INTERNAL_BGRA_8888 then
        Some (FLEX_FORMAT_RGBA,
          [(2, P b FLEX_COMPONENT_B 8 8 4 s0 1 1),
           (1, P (b + 1) FLEX_COMPONENT_G 8 8 4 s0 1 1),
           (0, P (b + 2) FLEX_COMPONENT_R 8 8 4 s0 1 1),
           (3, P (b + 3) FLEX_COMPONENT_A 8 8 4 s0 1 1)])
      else None)"

text \<open>
  \<open>mali_gralloc_lock_flex_async\<close>. It reads the handle before any validation, so
  a null handle is a fault; it never calls \<open>private_handle_t::validate\<close>.
\<close>

definition mali_gralloc_lock_flex_async ::
    "gralloc_build \<Rightarrow> int \<Rightarrow> private_handle_t option \<Rightarrow> u64 \<Rightarrow> int \<Rightarrow> int \<Rightarrow> int \<Rightarrow> int
       \<Rightarrow> android_flex_layout option \<Rightarrow> int
       \<Rightarrow> fence_effect list
          \<times> (fault + (int \<times> private_handle_t option \<times> android_flex_layout option))" where
  "mali_gralloc_lock_flex_async e lock_pid buffer usage l t w h flex_layout fence_fd =
     (wait_fence fence_fd,
      (case buffer of
         None \<Rightarrow> Inl NullPointer
       | Some hnd \<Rightarrow>
           (let base_format = alloc_format hnd AND INTFMT_FMT_MASK (intfmt e)
            in bind_res (validate_lock_input_parameters e lock_pid buffer l t w h usage) (\<lambda>status.
                 if status \<noteq> 0 then Inr (status, buffer, flex_layout)
                 else
                   (let hnd1 = set_write_owner usage hnd
                    in if get_format_index e base_format = - 1
                       then Inr (- EINVAL, Some hnd1, flex_layout)
                       else
                         bind_res (formats_at e (nat (get_format_index e base_format))) (\<lambda>f.
                           if \<not> flex f then Inr (GRALLOC1_ERROR_UNSUPPORTED, Some hnd1, flex_layout)
                           else
                             (case flex_layout of
                                None \<Rightarrow> Inl NullPointer
                              | Some lay \<Rightarrow>
                                  (let lay1 = lay\<lparr>num_planes := ncmp f\<rparr>
                                   in case flex_planes e hnd1 base_format of
                                        None \<Rightarrow> Inr (GRALLOC1_ERROR_UNSUPPORTED, Some hnd1, Some lay1)
                                      | Some (ff, ps) \<Rightarrow>
                                          bind_res (put_planes ps (lay1\<lparr>flex_format := ff\<rparr>))
                                            (\<lambda>lay2. Inr (GRALLOC1_ERROR_NONE, Some hnd1, Some lay2))))))))))"

text \<open>
  \<open>mali_gralloc_get_num_flex_planes\<close>; the result is the status and the content
  of \<open>*num_planes\<close> on return.
\<close>

definition mali_gralloc_get_num_flex_planes ::
    "gralloc_build \<Rightarrow> private_handle_t option \<Rightarrow> nat \<Rightarrow> fault + (int \<times> nat)" where
  "mali_gralloc_get_num_flex_planes e buffer num_planes_cell =
     (case buffer of
        None \<Rightarrow> Inl NullPointer
      | Some hnd \<Rightarrow>
          (let base_format = alloc_format hnd AND INTFMT_FMT_MASK (intfmt e)
           in if alloc_format hnd AND INTFMT_EXT_MASK (intfmt e) \<noteq> 0
              then Inr (GRALLOC1_ERROR_UNSUPPORTED, num_planes_cell)
              else if get_format_index e base_format = - 1
              then Inr (- EINVAL, num_planes_cell)
              else
                bind_res (formats_at e (nat (get_format_index e base_format))) (\<lambda>f.
                  if \<not> flex f then Inr (GRALLOC1_ERROR_UNSUPPORTED, num_planes_cell)
                  else Inr (GRALLOC1_ERROR_NONE, ncmp f))))"

text \<open>
  A handle of the reference configuration: a mapped 16 by 16 buffer of the
  process 100 in the basic AFBC layout of \<open>RGBA_8888\<close>.
\<close>

definition std_afbc_handle :: private_handle_t where
  "std_afbc_handle =
     \<lparr>version = 12, numFds = 2, numInts = 44, share_fd = 5, share_attr_fd = 6,
      magic = 0x3141592, flags = 0x4, width = 16, height = 16, req_format = 1,
      producer_usage = 0x300, consumer_usage = 0x300, internal_format = 0x100000001,
      stride = 16, hnd_byte_stride = 64, internalWidth = 16, internalHeight = 16,
      alloc_format = 0x100000001,
      plane_info = [\<lparr>offset = 0, byte_stride = 64, alloc_width = 16, alloc_height = 16\<rparr>,
                    \<lparr>offset = 0, byte_stride = 0, alloc_width = 0, alloc_height = 0\<rparr>,
                    \<lparr>offset = 0, byte_stride = 0, alloc_width = 0, alloc_height = 0\<rparr>],
      hnd_size = 1088, layer_count = 1, base = 0x10000, backing_store_id = 0,
      backing_store_size = 1088, writeOwner = 0, allocating_pid = 100, remote_pid = - 1,
      ref_count = 1, attr_base = 0, yuv_info = 0, fd = 0, fb_offset = 0, min_pgsz = 0\<rparr>"

section \<open>Allocation geometry\<close>



text \<open>
  Modelled from the spec: the macro \<open>GRALLOC_ALIGN(value, base)\<close> is defined in
  gralloc_helper.h, which is not among the sources. The specification describes
  it as rounding \<open>value\<close> up to a multiple of \<open>base\<close>, for bases that are not
  powers of two as well (sub-sampling factors, least common multiples), which
  is \<open>((value + base - 1) / base) * base\<close>. On \<open>uint32_t\<close> operands a base of
  zero is a division by zero.
\<close>

definition GRALLOC_ALIGN :: "nat \<Rightarrow> nat \<Rightarrow> fault + nat" where
  "GRALLOC_ALIGN v b =
     (if b = 0 then Inl DivisionByZero
      else Inr ((((v + b + (2 ^ 32 - 1)) mod 2 ^ 32) div b * b) mod 2 ^ 32))"















text \<open>
  \<open>assert(c)\<close>: nothing when \<open>NDEBUG\<close> is defined, else the process is aborted
  when \<open>c\<close> is false.
\<close>

definition assert_c :: "gralloc_build \<Rightarrow> bool \<Rightarrow> fault + unit" where
  "assert_c e c = (if NDEBUG e \<or> c then Inr () else Inl AssertionFailed)"

text \<open>
  The condition of the second assertion of \<open>update_yv12_stride\<close>,
  \<open>*byte_stride & 15 == 0\<close>. In C \<open>==\<close> binds tighter than \<open>&\<close>: the operands of
  \<open>&\<close> are \<open>*byte_stride\<close> and the value (1 or 0) of the comparison of 15 with 0.
\<close>

definition yv12_chroma_assert_cond :: "nat \<Rightarrow> nat" where
  "yv12_chroma_assert_cond bs = bs AND (if (15 :: int) = 0 then 1 else 0)"

text \<open>
  \<open>update_yv12_stride\<close> returns the new \<open>*byte_stride\<close>. An \<open>assert\<close> holds when
  its condition is not zero.
\<close>

definition update_yv12_stride :: "gralloc_build \<Rightarrow> nat \<Rightarrow> nat \<Rightarrow> nat \<Rightarrow> fault + nat" where
  "update_yv12_stride e plane luma_stride stride_align =
     (if plane = 0 then GRALLOC_ALIGN luma_stride (2 * stride_align mod 2 ^ 32)
      else
        (let bs = luma_stride div 2
         in if NDEBUG e then Inr bs
            else
              bind_res (GRALLOC_ALIGN bs stride_align) (\<lambda>aligned.
              bind_res (assert_c e (bs = aligned)) (\<lambda>_.
              bind_res (assert_c e (yv12_chroma_assert_cond bs \<noteq> 0)) (\<lambda>_.
                Inr bs)))))"









section \<open>The geometry in exact arithmetic\<close>

text \<open>
  The quantities of the allocation geometry written without the 32-bit
  wrap-around. The lemmas on the allocation size show that the functions above
  compute them as long as the dimensions are small enough.
\<close>

text \<open>\<open>value\<close> rounded up to a multiple of \<open>base\<close>, in exact arithmetic.\<close>

definition round_up :: "nat \<Rightarrow> nat \<Rightarrow> nat" where
  "round_up v b = (v + b - 1) div b * b"









section \<open>Well-formed constants\<close>

text \<open>
  What the theorems below assume of the constants that are parameters. The
  format identifiers are non-negative \<open>int\<close> enumerators, and the entries of the
  table carry pairwise different identifiers. The base format occupies the low
  32 bits of an internal format (the sources truncate it with \<open>(uint32_t)\<close>), and
  the double-body bit is a modifier bit of its own above them, shared with no
  other modifier.
\<close>

definition ids_wf :: "gralloc_build \<Rightarrow> bool" where
  "ids_wf e = ((\<forall>n. ids e n < 0x80000000) \<and> distinct (map fmt_id (formats e)))"

definition intfmt_wf :: "mali_intfmt \<Rightarrow> bool" where
  "intfmt_wf k =
     (INTFMT_FMT_MASK k = 0xffffffff
      \<and> INTFMT_AFBC_DOUBLE_BODY k AND 0xffffffff = 0
      \<and> INTFMT_AFBC_BASIC k AND INTFMT_AFBC_DOUBLE_BODY k = 0
      \<and> INTFMT_AFBC_SPLITBLK k AND INTFMT_AFBC_DOUBLE_BODY k = 0
      \<and> INTFMT_AFBC_WIDEBLK k AND INTFMT_AFBC_DOUBLE_BODY k = 0
      \<and> INTFMT_AFBC_TILED_HEADERS k AND INTFMT_AFBC_DOUBLE_BODY k = 0
      \<and> INTFMT_AFBC_EXTRAWIDEBLK k AND INTFMT_AFBC_DOUBLE_BODY k = 0
      \<and> INTFMT_AFBC_DOUBLE_BODY k \<noteq> 0)"

section \<open>Verified properties\<close>

subsection \<open>Evaluation in the reference configuration\<close>

lemmas std_table_defs =
  num_formats_def formats_def formats_rgb_def formats_sdk26_def formats_yuv_def
  formats_other_def formats_sdk28_def std_build_def std_intfmt_def std_capability_def

lemma std_build_sel:
  "intfmt std_build = std_intfmt"
  "capability std_build = std_capability"
  "ids std_build = std_ids"
  "PLATFORM_SDK_VERSION std_build = 28"
  "MALI_DISPLAY_VERSION std_build = 0"
  "NDEBUG std_build = True"
  "LP64 std_build = True"
  "gpu_runtime_caps std_build = 0x83"
  "dpu_runtime_caps std_build = 0"
  "vpu_runtime_caps std_build = 0"
  "cam_runtime_caps std_build = 0"
  by (simp_all add: std_build_def)

lemma num_formats_std: "num_formats std_build = 33"
  by (simp add: std_table_defs)

lemma formats_at_Inr: "i < num_formats e \<Longrightarrow> formats_at e i = Inr (formats e ! i)"
  by (simp add: formats_at_def)

subsection \<open>Casts between the 32-bit and the 64-bit view, and the table scan\<close>

lemma sign_clear:
  fixes x :: u32
  assumes "x < 0x80000000"
  shows "\<not> bit x 31"
proof -
  have "x < 2 ^ 31" using assms by simp
  then have "x AND mask 31 = x" by (rule less_mask_eq)
  then have "bit x 31 = bit (x AND mask 31) 31" by simp
  then show ?thesis by (simp add: bit_simps)
qed

lemma scast_nonneg:
  fixes x :: u32
  assumes "x < 0x80000000"
  shows "(scast x :: u64) = ucast x"
proof (rule bit_word_eqI)
  fix n assume "n < LENGTH(64)"
  have nb: "\<not> bit x 31" using assms by (rule sign_clear)
  show "bit (scast x :: u64) n = bit (ucast x :: u64) n"
    using nb by (auto simp add: bit_word_scast_iff bit_ucast_iff dest: bit_imp_le_length)
qed

lemma ucast_low32:
  fixes x :: u32
  shows "(ucast x :: u64) AND 0xffffffff = ucast x"
proof -
  have "(0xffffffff :: u64) = mask 32" by (simp add: mask_eq_exp_minus_1)
  then show ?thesis
    by (auto simp add: bit_eq_iff bit_simps dest: bit_imp_le_length)
qed

lemma ucast_and_high:
  fixes x :: u32 and m :: u64
  assumes "m AND 0xffffffff = 0"
  shows "ucast x AND m = 0"
proof -
  have "ucast x AND m = (ucast x AND 0xffffffff) AND m" by (simp add: ucast_low32)
  also have "\<dots> = ucast x AND (m AND 0xffffffff)" by (simp add: ac_simps)
  finally show ?thesis using assms by simp
qed

lemma ucast_down_up:
  fixes a :: u32
  shows "(ucast (ucast a :: u64) :: u32) = a"
  by (auto simp add: bit_eq_iff bit_simps dest: bit_imp_le_length)

lemma ucast_inj32:
  fixes a b :: u32
  shows "((ucast a :: u64) = ucast b) = (a = b)"
  by (metis ucast_down_up)

lemma scan_idx_le: "scan_idx P xs \<le> length xs"
  by (induction xs) auto

lemma scan_idx_found:
  "x \<in> set xs \<Longrightarrow> P x \<Longrightarrow> scan_idx P xs < length xs \<and> P (xs ! scan_idx P xs)"
  by (induction xs) auto

lemma scan_idx_distinct:
  assumes "distinct (map h xs)" and "g \<in> set xs"
  shows "scan_idx (\<lambda>f. h f = h g) xs < length xs \<and> xs ! scan_idx (\<lambda>f. h f = h g) xs = g"
proof -
  let ?i = "scan_idx (\<lambda>f. h f = h g) xs"
  have a: "?i < length xs" and b: "h (xs ! ?i) = h g"
    using scan_idx_found [of g xs "\<lambda>f. h f = h g"] assms(2) by auto
  have "xs ! ?i \<in> set xs" using a by simp
  then have "xs ! ?i = g"
    using assms b by (meson distinct_map inj_onD)
  with a show ?thesis by simp
qed

lemma scan_idx_none: "\<forall>x\<in>set xs. \<not> P x \<Longrightarrow> scan_idx P xs = length xs"
  by (induction xs) auto

lemma std_ids_lt: "std_ids n < 0x80000000"
  by (cases n) simp_all

lemma ids_wf_std: "ids_wf std_build"
  unfolding ids_wf_def
proof
  show "\<forall>n. ids std_build n < 0x80000000"
    by (simp add: std_build_def std_ids_lt)
  show "distinct (map fmt_id (formats std_build))"
    by (simp add: std_table_defs)
qed

lemma intfmt_wf_std: "intfmt_wf (intfmt std_build)"
  by (simp add: intfmt_wf_def std_build_def std_intfmt_def)

lemmas usage_defs =
  GRALLOC_USAGE_SW_READ_MASK_def GRALLOC_USAGE_SW_WRITE_MASK_def GRALLOC_USAGE_SW_READ_OFTEN_def
  GRALLOC_USAGE_HW_TEXTURE_def GRALLOC_USAGE_HW_RENDER_def GRALLOC_USAGE_HW_COMPOSER_def
  GRALLOC_USAGE_HW_FB_def GRALLOC_USAGE_EXTERNAL_DISP_def GRALLOC_USAGE_PROTECTED_def
  GRALLOC_USAGE_HW_VIDEO_ENCODER_def GRALLOC_USAGE_HW_CAMERA_MASK_def GRALLOC_USAGE_PRIVATE_MASK_def
  MALI_GRALLOC_USAGE_FRONTBUFFER_def MALI_GRALLOC_USAGE_FORCE_BACKBUFFER_def
  MALI_GRALLOC_USAGE_NO_AFBC_def MALI_GRALLOC_USAGE_AFBC_PADDING_def
  MALI_GRALLOC_USAGE_PRIVATE_FORMAT_def

subsection \<open>The result of the single-plane fallback\<close>

lemma convert_yuv_to_afbc_single_plane_returns:
  "format_idx < num_formats e \<Longrightarrow>
     \<exists>b i. convert_yuv_to_afbc_single_plane e format_idx = Inr (b, i)"
  by (auto simp add: convert_yuv_to_afbc_single_plane_def formats_at_def bind_res_def Let_def)

text \<open>
  Claim C8. \<open>afbc_format_fallback\<close> returns \<open>true\<close> on every call with an index
  of the table, whatever the usage and the \<open>force\<close> flag: the assignment of
  \<open>false\<close> in the failure branch goes to a shadowing local, so the caller never
  sees a failure and proceeds with the index it gets back.
\<close>

theorem afbc_format_fallback_always_true:
  assumes "format_idx < num_formats e"
  shows "\<exists>idx'. afbc_format_fallback e format_idx usage force = Inr (True, idx')"
proof -
  obtain b i where c: "convert_yuv_to_afbc_single_plane e format_idx = Inr (b, i)"
    using convert_yuv_to_afbc_single_plane_returns [OF assms] by blast
  show ?thesis
    using assms c
    by (simp add: afbc_format_fallback_def formats_at_def bind_res_def Let_def)
qed

text \<open>
  The witness is the entry of RGBA_16161616 (index 6 of the reference table):
  it is not a YUV format and has no AFBC support, the conversion fails and leaves
  the index alone, and the fallback still answers \<open>true\<close>.
\<close>

theorem afbc_format_fallback_always_true_witness:
  "(6::nat) < num_formats std_build
   \<and> convert_yuv_to_afbc_single_plane std_build 6 = Inr (False, 6)
   \<and> afbc_format_fallback std_build 6 0 True = Inr (True, 6)"
proof -
  have n: "(6::nat) < num_formats std_build"
    by (simp add: num_formats_std)
  have c: "convert_yuv_to_afbc_single_plane std_build 6 = Inr (False, 6)"
    by (simp add: convert_yuv_to_afbc_single_plane_def formats_at_def bind_res_def Let_def
        std_table_defs)
  obtain i where r: "afbc_format_fallback std_build 6 0 True = Inr (True, i)"
    using afbc_format_fallback_always_true [OF n, of 0 True] by blast
  have "afbc_format_fallback std_build 6 0 True = Inr (True, 6)"
    using r c n
    by (simp add: afbc_format_fallback_def formats_at_def bind_res_def Let_def split: if_splits)
  with n c show ?thesis by simp
qed

subsection \<open>The unchecked scans of the format table\<close>

text \<open>
  Claim C9. The claim is that the scans of \<open>is_android_yuv_format\<close> and
  \<open>is_afbc_supported\<close> always stop below \<open>num_formats\<close>. They do not: for the
  identifier 0x27 (HAL_PIXEL_FORMAT_YCbCr_422_888, which \<open>map_flex_formats\<close>
  leaves unmapped and the table does not list) both scans run to the end and
  the following table read is out of bounds, whereas \<open>get_format_index\<close> tests
  the index and answers -1.
\<close>

theorem unchecked_scan_reads_past_table:
  "is_android_yuv_format std_build 0x27 = Inl OutOfBounds
   \<and> is_afbc_supported std_build 0x27 = Inl OutOfBounds
   \<and> get_format_index std_build 0x27 = - 1"
  by (simp add: is_android_yuv_format_def is_afbc_supported_def get_format_index_def
      formats_at_def bind_res_def Let_def std_table_defs)

subsection \<open>Extra-wide blocks need tiled headers\<close>

text \<open>
  Claim C4, as the code has it. For every internal format with the AFBC-enable
  bit set, the extra-wide-block bit set and the tiled-headers bit clear,
  \<open>get_alloc_type\<close> returns \<open>false\<close>. (The test sits inside the branch guarded by
  the AFBC-enable mask.)
\<close>

theorem get_alloc_type_rejects_extrawide_untiled:
  assumes "format_idx < num_formats e"
    and "internal_fmt AND INTFMT_AFBCENABLE_MASK (intfmt e) \<noteq> 0"
    and "internal_fmt AND INTFMT_AFBC_EXTRAWIDEBLK (intfmt e) \<noteq> 0"
    and "internal_fmt AND INTFMT_AFBC_TILED_HEADERS (intfmt e) = 0"
  shows "\<exists>t. get_alloc_type e internal_fmt format_idx usage = Inr (False, t)"
  using assms by (simp add: get_alloc_type_def formats_at_def bind_res_def Let_def)

theorem get_alloc_type_rejects_extrawide_untiled_witness:
  "(2::nat) < num_formats std_build
   \<and> (0x1100000001 :: u64) AND INTFMT_AFBCENABLE_MASK (intfmt std_build) \<noteq> 0
   \<and> (0x1100000001 :: u64) AND INTFMT_AFBC_EXTRAWIDEBLK (intfmt std_build) \<noteq> 0
   \<and> (0x1100000001 :: u64) AND INTFMT_AFBC_TILED_HEADERS (intfmt std_build) = 0
   \<and> (\<exists>t. get_alloc_type std_build 0x1100000001 2 0 = Inr (False, t))"
proof -
  have a: "(2::nat) < num_formats std_build"
    by (simp add: num_formats_std)
  have b: "(0x1100000001 :: u64) AND INTFMT_AFBCENABLE_MASK (intfmt std_build) \<noteq> 0"
    by (simp add: std_build_def std_intfmt_def)
  have c: "(0x1100000001 :: u64) AND INTFMT_AFBC_EXTRAWIDEBLK (intfmt std_build) \<noteq> 0"
    by (simp add: std_build_def std_intfmt_def)
  have d: "(0x1100000001 :: u64) AND INTFMT_AFBC_TILED_HEADERS (intfmt std_build) = 0"
    by (simp add: std_build_def std_intfmt_def)
  from get_alloc_type_rejects_extrawide_untiled [OF a b c d] a b c d
  show ?thesis by blast
qed

text \<open>
  The claim as stated fails where the AFBC-enable bit is clear: RGBA_8888 with
  only the extra-wide-block bit set (0x1000000001) is accepted as an
  uncompressed allocation.
\<close>

theorem get_alloc_type_accepts_extrawide_without_afbc:
  "(0x1000000001 :: u64) AND INTFMT_AFBC_EXTRAWIDEBLK (intfmt std_build) \<noteq> 0
   \<and> (0x1000000001 :: u64) AND INTFMT_AFBC_TILED_HEADERS (intfmt std_build) = 0
   \<and> get_alloc_type std_build 0x1000000001 2 0 =
       Inr (True, \<lparr>primary_type = UNCOMPRESSED, is_multi_plane = False, is_tiled = False,
                   is_padded = False, is_frontbuffer_safe = False\<rparr>)"
  by (simp add: get_alloc_type_def formats_at_def bind_res_def Let_def std_table_defs)


subsection \<open>NO_AFBC and YUV formats\<close>

lemma is_android_yuv_format_entry:
  assumes "distinct (map fmt_id (formats e))" and "g \<in> set (formats e)"
  shows "is_android_yuv_format e (ucast (fmt_id g)) = Inr (is_yuv g)"
proof -
  show ?thesis
    using scan_idx_distinct [OF assms]
    by (simp add: is_android_yuv_format_def formats_at_def num_formats_def bind_res_def
        Let_def ucast_inj32)
qed

lemma nv12_entry:
  "\<exists>g \<in> set (formats e). fmt_id g = ids e INTERNAL_NV12 \<and> is_yuv g"
  by (simp add: formats_def formats_yuv_def)

lemma ycbcr_422_i_entry:
  "\<exists>g \<in> set (formats e). fmt_id g = ids e HAL_YCbCr_422_I \<and> is_yuv g"
  by (simp add: formats_def formats_yuv_def)

lemma mapped_yuv:
  assumes wf: "ids_wf e" and g: "g \<in> set (formats e)" "is_yuv g"
  shows "is_android_yuv_format e (scast (map_flex_formats e (ucast (fmt_id g)))) = Inr True"
proof -
  have d: "distinct (map fmt_id (formats e))" using wf by (simp add: ids_wf_def)
  have lt: "\<And>n. ids e n < 0x80000000" using wf by (simp add: ids_wf_def)
  obtain a where a: "a \<in> set (formats e)" "fmt_id a = ids e INTERNAL_NV12" "is_yuv a"
    using nv12_entry by blast
  obtain b where b: "b \<in> set (formats e)" "fmt_id b = ids e HAL_YCbCr_422_I" "is_yuv b"
    using ycbcr_422_i_entry by blast
  have "\<exists>h \<in> set (formats e). is_yuv h \<and> map_flex_formats e (ucast (fmt_id g)) = fmt_id h"
    using a b g by (auto simp add: map_flex_formats_def fid_def Let_def ucast_down_up)
  then obtain h where h: "h \<in> set (formats e)" "is_yuv h"
      "map_flex_formats e (ucast (fmt_id g)) = fmt_id h" by blast
  have "\<exists>n. fmt_id h = ids e n"
    using h(1) by (auto simp add: formats_def formats_rgb_def formats_sdk26_def formats_yuv_def
        formats_other_def formats_sdk28_def split: if_splits)
  then have "fmt_id h < 0x80000000" using lt by auto
  then have "(scast (fmt_id h) :: u64) = ucast (fmt_id h)" by (rule scast_nonneg)
  then show ?thesis
    using h is_android_yuv_format_entry [OF d h(1)] by simp
qed

text \<open>
  Where the NO_AFBC test is reached it rejects every YUV entry of the format
  table: \<open>mali_gralloc_select_format\<close> returns 0 when the usage carries both bits
  of \<open>MALI_GRALLOC_USAGE_NO_AFBC\<close>, the request is an ordinary one (format type
  "usage", no \<open>MALI_GRALLOC_USAGE_PRIVATE_FORMAT\<close>) and the usage has no CPU read
  or write bit.
\<close>

theorem select_format_rejects_no_afbc_yuv:
  assumes wf: "ids_wf e"
    and g: "g \<in> set (formats e)" "is_yuv g"
    and req: "req_fmt AND INTFMT_FMT_MASK (intfmt e) = ucast (fmt_id g)"
    and no_afbc: "usage AND MALI_GRALLOC_USAGE_NO_AFBC = MALI_GRALLOC_USAGE_NO_AFBC"
    and not_private: "usage AND MALI_GRALLOC_USAGE_PRIVATE_FORMAT = 0"
    and not_cpu: "usage AND (GRALLOC_USAGE_SW_READ_MASK OR GRALLOC_USAGE_SW_WRITE_MASK) = 0"
  shows "mali_gralloc_select_format e req_fmt MALI_GRALLOC_FORMAT_TYPE_USAGE usage buffer_size = Inr 0"
proof -
  have p: "fst (determine_producer usage)"
    using not_cpu by (simp add: determine_producer_def)
  have c: "fst (determine_consumer e usage)"
    using not_cpu by (simp add: determine_consumer_def)
  have m: "runtime_masks e usage (scast (map_flex_formats e (ucast (fmt_id g)))) buffer_size
             (snd (determine_producer usage)) (snd (determine_consumer e usage)) = Inr None"
    using no_afbc mapped_yuv [OF wf g]
    by (simp add: runtime_masks_def bind_res_def Let_def)
  show ?thesis
    using p c m req not_private
    by (simp add: mali_gralloc_select_format_def Let_def bind_res_def)
qed



theorem select_format_rejects_no_afbc_yuv_witness:
  "ids_wf std_build
   \<and> formats std_build ! 10 \<in> set (formats std_build)
   \<and> is_yuv (formats std_build ! 10)
   \<and> (0x100 :: u64) AND INTFMT_FMT_MASK (intfmt std_build) = ucast (fmt_id (formats std_build ! 10))
   \<and> (0x60000100 :: u64) AND MALI_GRALLOC_USAGE_NO_AFBC = MALI_GRALLOC_USAGE_NO_AFBC
   \<and> (0x60000100 :: u64) AND MALI_GRALLOC_USAGE_PRIVATE_FORMAT = 0
   \<and> (0x60000100 :: u64) AND (GRALLOC_USAGE_SW_READ_MASK OR GRALLOC_USAGE_SW_WRITE_MASK) = 0
   \<and> mali_gralloc_select_format std_build 0x100 MALI_GRALLOC_FORMAT_TYPE_USAGE 0x60000100 0 = Inr 0"
proof -
  have g1: "formats std_build ! 10 \<in> set (formats std_build)"
    by (simp add: std_table_defs)
  have g2: "is_yuv (formats std_build ! 10)"
    by (simp add: std_table_defs)
  have r: "(0x100 :: u64) AND INTFMT_FMT_MASK (intfmt std_build)
             = ucast (fmt_id (formats std_build ! 10))"
    by (simp add: std_table_defs)
  have u1: "(0x60000100 :: u64) AND MALI_GRALLOC_USAGE_NO_AFBC = MALI_GRALLOC_USAGE_NO_AFBC"
    by (simp add: usage_defs)
  have u2: "(0x60000100 :: u64) AND MALI_GRALLOC_USAGE_PRIVATE_FORMAT = 0"
    by (simp add: usage_defs)
  have u3: "(0x60000100 :: u64) AND (GRALLOC_USAGE_SW_READ_MASK OR GRALLOC_USAGE_SW_WRITE_MASK) = 0"
    by (simp add: usage_defs)
  from select_format_rejects_no_afbc_yuv [OF ids_wf_std g1 g2 r u1 u2 u3, of 0]
    ids_wf_std g1 g2 r u1 u2 u3
  show ?thesis by blast
qed

text \<open>
  Claim C1. The claim is that a YUV entry of the format table requested with
  both bits of \<open>MALI_GRALLOC_USAGE_NO_AFBC\<close> is always answered with 0; the
  header mali_gralloc_usages.h says the same ("clients using
  MALI_GRALLOC_USAGE_NO_AFBC must never allocate YUV formats. The latter is
  strictly enforced and allocations will fail"). The code performs the test
  only after the exit for a CPU producer or consumer, and after the decoding of
  private formats. NV12 (index 10 of the reference table, identifier 0x100) is
  a YUV entry; with NO_AFBC and a CPU read usage (0x60000006) the function
  returns the mapped format 0x100, and with NO_AFBC and the private-format flag
  (0xE0000000) it returns the decoded format 0x100.
\<close>

theorem select_format_no_afbc_yuv_accepted:
  "is_yuv (formats std_build ! 10) \<and> fmt_id (formats std_build ! 10) = 0x100
   \<and> (0x60000006 :: u64) AND MALI_GRALLOC_USAGE_NO_AFBC = MALI_GRALLOC_USAGE_NO_AFBC
   \<and> mali_gralloc_select_format std_build 0x100 MALI_GRALLOC_FORMAT_TYPE_USAGE 0x60000006 0 = Inr 0x100
   \<and> (0xE0000000 :: u64) AND MALI_GRALLOC_USAGE_NO_AFBC = MALI_GRALLOC_USAGE_NO_AFBC
   \<and> mali_gralloc_select_format std_build 0x100 MALI_GRALLOC_FORMAT_TYPE_USAGE 0xE0000000 0 = Inr 0x100"
proof -
  have a: "is_yuv (formats std_build ! 10) \<and> fmt_id (formats std_build ! 10) = 0x100"
    by (simp add: std_table_defs)
  have b: "mali_gralloc_select_format std_build 0x100 MALI_GRALLOC_FORMAT_TYPE_USAGE 0x60000006 0 = Inr 0x100"
    by (simp add: mali_gralloc_select_format_def determine_producer_def determine_consumer_def
        map_flex_formats_def fid_def Let_def usage_defs std_build_def std_intfmt_def)
  have c: "mali_gralloc_select_format std_build 0x100 MALI_GRALLOC_FORMAT_TYPE_USAGE 0xE0000000 0 = Inr 0x100"
    by (simp add: mali_gralloc_select_format_def decode_internal_format_def decodable_formats_def
        map_flex_formats_def fid_def Let_def usage_defs std_build_def std_intfmt_def)
  show ?thesis using a b c by (simp add: usage_defs)
qed

theorem select_format_no_afbc_yuv_accepted_witness:
  "mali_gralloc_select_format std_build 0x100 MALI_GRALLOC_FORMAT_TYPE_USAGE 0x60000006 0 \<noteq> Inr 0
   \<and> mali_gralloc_select_format std_build 0x100 MALI_GRALLOC_FORMAT_TYPE_USAGE 0xE0000000 0 \<noteq> Inr 0"
  using select_format_no_afbc_yuv_accepted by simp


subsection \<open>Front-buffer allocations\<close>

lemma set_if_nd:
  "f AND d = 0 \<Longrightarrow> m AND d = 0 \<Longrightarrow> set_if b m f AND d = 0"
  by (simp add: set_if_def word_ao_dist)

lemma reject_nd:
  "f AND d = 0 \<Longrightarrow> reject_unsupported e r a b f AND d = 0"
  by (simp add: reject_unsupported_def)

lemma if_nd:
  "(c \<Longrightarrow> a AND d = 0) \<Longrightarrow> (\<not> c \<Longrightarrow> b AND d = 0) \<Longrightarrow> (if c then a else b) AND d = (0::u64)"
  by simp

lemma determine_best_format_no_double_body:
  assumes wf: "intfmt_wf (intfmt e)"
    and r: "(scast req :: u64) AND INTFMT_AFBC_DOUBLE_BODY (intfmt e) = 0"
  shows "determine_best_format e req producer consumer pm cm
           AND INTFMT_AFBC_DOUBLE_BODY (intfmt e) = 0"
proof -
  have b: "INTFMT_AFBC_BASIC (intfmt e) AND INTFMT_AFBC_DOUBLE_BODY (intfmt e) = 0"
   and s: "INTFMT_AFBC_SPLITBLK (intfmt e) AND INTFMT_AFBC_DOUBLE_BODY (intfmt e) = 0"
   and w: "INTFMT_AFBC_WIDEBLK (intfmt e) AND INTFMT_AFBC_DOUBLE_BODY (intfmt e) = 0"
   and t: "INTFMT_AFBC_TILED_HEADERS (intfmt e) AND INTFMT_AFBC_DOUBLE_BODY (intfmt e) = 0"
    using wf by (simp_all add: intfmt_wf_def)
  have ob: "(scast req OR INTFMT_AFBC_BASIC (intfmt e)) AND INTFMT_AFBC_DOUBLE_BODY (intfmt e) = 0"
    using r b by (simp add: word_ao_dist)
  show ?thesis
    unfolding determine_best_format_def Let_def
    by (intro if_nd set_if_nd reject_nd r ob b s w t)
qed

lemma and_mask_idem: "((a::u64) AND m) AND m = a AND m"
  by (simp add: bit_eq_iff bit_simps)

lemma and_mask_zero: "(a::u64) AND d = 0 \<Longrightarrow> (a AND m) AND d = 0"
  by (auto simp add: bit_eq_iff bit_simps)

lemma cleared_wide: "(((a::u64) AND NOT w) AND NOT x) AND w = 0"
  by (auto simp add: bit_eq_iff bit_simps)

lemma cleared_extrawide: "(((a::u64) AND NOT w) AND NOT x) AND x = 0"
  by (auto simp add: bit_eq_iff bit_simps)


lemma frontbuffer_format_double_body:
  assumes f: "f AND INTFMT_AFBC_DOUBLE_BODY (intfmt e) = 0"
    and d: "frontbuffer_format e p c f AND INTFMT_AFBC_DOUBLE_BODY (intfmt e) \<noteq> 0"
  shows "frontbuffer_format e p c f AND INTFMT_AFBC_WIDEBLK (intfmt e) = 0
         \<and> frontbuffer_format e p c f AND INTFMT_AFBC_EXTRAWIDEBLK (intfmt e) = 0"
proof -
  define g where "g = ((f OR INTFMT_AFBC_DOUBLE_BODY (intfmt e))
                        AND NOT (INTFMT_AFBC_WIDEBLK (intfmt e)))
                        AND NOT (INTFMT_AFBC_EXTRAWIDEBLK (intfmt e))"
  obtain f1 where r: "frontbuffer_format e p c f =
      (if f1 AND INTFMT_AFBC_DOUBLE_BODY (intfmt e) = 0
       then f1 AND INTFMT_FMT_MASK (intfmt e) else f1)"
    and f1: "f1 = g \<or> f1 = f"
    by (simp add: frontbuffer_format_def Let_def g_def)
  show ?thesis
  proof (cases "f1 AND INTFMT_AFBC_DOUBLE_BODY (intfmt e) = 0")
    case True
    then have "frontbuffer_format e p c f AND INTFMT_AFBC_DOUBLE_BODY (intfmt e) = 0"
      by (simp add: r and_mask_zero)
    with d show ?thesis by simp
  next
    case False
    with f f1 have "f1 = g" by auto
    with False show ?thesis
      by (simp add: r g_def cleared_wide cleared_extrawide)
  qed
qed


lemma sign_clear_lt:
  fixes x :: u32
  assumes "\<not> bit x 31"
  shows "x < 0x80000000"
proof -
  have "x AND mask 31 = x"
  proof (rule bit_word_eqI)
    fix n assume "n < LENGTH(32)"
    then have "n < 31 \<or> n = 31" by auto
    then show "bit (x AND mask 31) n = bit x n"
      using assms by (auto simp add: bit_simps)
  qed
  then have "x < 2 ^ 31"
    by (simp add: mask_eq_iff_w2p word_size)
  then show ?thesis by simp
qed

lemma truncated_request_lt:
  fixes req :: u64
  assumes "req AND 0x80000000 = 0"
  shows "(ucast (req AND 0xffffffff) :: u32) < 0x80000000"
proof (rule sign_clear_lt)
  have "(0x80000000 :: u64) = push_bit 31 1" by simp
  then have "bit (req AND 0x80000000) 31 = bit req 31"
    by (simp only: bit_simps) simp
  then have "\<not> bit req 31" using assms by simp
  then show "\<not> bit (ucast (req AND 0xffffffff) :: u32) 31"
    by (simp add: bit_simps)
qed

lemma map_flex_formats_lt:
  assumes ids: "\<forall>n. ids e n < 0x80000000" and req: "req AND 0x80000000 = 0"
  shows "map_flex_formats e (req AND 0xffffffff) < 0x80000000"
  using ids truncated_request_lt [OF req]
  by (simp add: map_flex_formats_def fid_def Let_def ucast_down_up)


lemma frontbuffer_format_zero: "frontbuffer_format e p c 0 = 0"
  by (simp add: frontbuffer_format_def Let_def)

lemma select_format_frontbuffer_block:
  assumes not_private: "usage AND MALI_GRALLOC_USAGE_PRIVATE_FORMAT = 0"
  shows "mali_gralloc_select_format e req_fmt MALI_GRALLOC_FORMAT_TYPE_USAGE usage buffer_size =
     bind_res (usage_internal_format e req_fmt usage buffer_size) (\<lambda>s.
       if fst (determine_producer usage) \<and> fst (determine_consumer e usage)
          \<and> usage AND MALI_GRALLOC_USAGE_FRONTBUFFER \<noteq> 0
       then Inr (frontbuffer_format e (snd (determine_producer usage)) (snd (determine_consumer e usage)) s)
       else Inr s)"
proof (cases "\<not> fst (determine_producer usage) \<or> \<not> fst (determine_consumer e usage)")
  case True
  then show ?thesis
    using not_private
    by (auto simp add: mali_gralloc_select_format_def usage_internal_format_def Let_def bind_res_def)
next
  case False
  define m where "m = (scast (map_flex_formats e (req_fmt AND INTFMT_FMT_MASK (intfmt e))) :: u64)"
  define p where "p = snd (determine_producer usage)"
  define c where "c = snd (determine_consumer e usage)"
  show ?thesis
  proof (cases "runtime_masks e usage m buffer_size p c")
    case (Inl a)
    then show ?thesis
      using not_private False
      by (simp add: mali_gralloc_select_format_def usage_internal_format_def Let_def bind_res_def
          m_def p_def c_def)
  next
    case (Inr masks)
    show ?thesis
    proof (cases masks)
      case None
      then show ?thesis
        using not_private False Inr
        by (simp add: mali_gralloc_select_format_def usage_internal_format_def Let_def bind_res_def
          m_def p_def c_def frontbuffer_format_zero)
    next
      case (Some pc)
      obtain pm cm where pc: "pc = (pm, cm)" by (cases pc)
      show ?thesis
        using not_private False Inr Some pc
        unfolding mali_gralloc_select_format_def usage_internal_format_def Let_def
          m_def [symmetric] p_def [symmetric] c_def [symmetric]
        by (simp add: bind_res_def)
    qed
  qed
qed

lemma usage_internal_format_cases:
  assumes ret: "usage_internal_format e req_fmt usage buffer_size = Inr s"
    and m: "m = (scast (map_flex_formats e (req_fmt AND INTFMT_FMT_MASK (intfmt e))) :: u64)"
    and p: "p = snd (determine_producer usage)"
    and c: "c = snd (determine_consumer e usage)"
  shows "s = m \<or> s = 0 \<or> (\<exists>pm cm. s = determine_best_format e (ucast m) p c pm cm)"
proof (cases "\<not> fst (determine_producer usage) \<or> \<not> fst (determine_consumer e usage)")
  case True
  then have "s = m"
    using ret m by (auto simp add: usage_internal_format_def Let_def)
  then show ?thesis by simp
next
  case False
  show ?thesis
  proof (cases "runtime_masks e usage m buffer_size p c")
    case (Inl a)
    then show ?thesis
      using ret False m p c
      by (simp add: usage_internal_format_def Let_def bind_res_def)
  next
    case (Inr masks)
    show ?thesis
    proof (cases masks)
      case None
      then have "s = 0"
        using ret False m p c Inr
        by (simp add: usage_internal_format_def Let_def bind_res_def)
      then show ?thesis by simp
    next
      case (Some pc)
      obtain pm cm where pc: "pc = (pm, cm)" by (cases pc)
      have "s = 0 \<or> s = determine_best_format e (ucast m) p c pm cm"
        using ret False Inr Some pc
        unfolding usage_internal_format_def Let_def m [symmetric] p [symmetric] c [symmetric]
        by (auto simp add: bind_res_def validate_depth_stencil_usage_def split: if_splits)
      then show ?thesis by blast
    qed
  qed
qed

lemma double_body_kept:
  fixes f :: u64
  assumes "w AND d = 0" and "x AND d = 0"
  shows "(((f OR d) AND NOT w) AND NOT x) AND d = d"
proof (rule bit_word_eqI)
  fix n assume n: "n < LENGTH(64)"
  have a: "\<not> (bit w n \<and> bit d n)"
    using assms(1) by (metis bit_and_iff bit_0_eq bot_apply bot_bool_def)
  have b: "\<not> (bit x n \<and> bit d n)"
    using assms(2) by (metis bit_and_iff bit_0_eq bot_apply bot_bool_def)
  show "bit ((((f OR d) AND NOT w) AND NOT x) AND d) n = bit d n"
    using a b n by (auto simp add: bit_simps)
qed

lemma frontbuffer_format_fallback:
  assumes wf: "intfmt_wf (intfmt e)"
    and d: "frontbuffer_format e p c f AND INTFMT_AFBC_DOUBLE_BODY (intfmt e) = 0"
  shows "frontbuffer_format e p c f = f AND INTFMT_FMT_MASK (intfmt e)"
proof -
  let ?D = "INTFMT_AFBC_DOUBLE_BODY (intfmt e)"
  define g where "g = ((f OR ?D) AND NOT (INTFMT_AFBC_WIDEBLK (intfmt e)))
                        AND NOT (INTFMT_AFBC_EXTRAWIDEBLK (intfmt e))"
  have w: "INTFMT_AFBC_WIDEBLK (intfmt e) AND ?D = 0"
    and x: "INTFMT_AFBC_EXTRAWIDEBLK (intfmt e) AND ?D = 0"
    and nz: "?D \<noteq> 0"
    using wf by (simp_all add: intfmt_wf_def)
  have gd: "g AND ?D \<noteq> 0"
    unfolding g_def using double_body_kept [OF w x, of f] nz by simp
  obtain f1 where r: "frontbuffer_format e p c f =
      (if f1 AND ?D = 0 then f1 AND INTFMT_FMT_MASK (intfmt e) else f1)"
    and f1: "f1 = g \<or> f1 = f"
    by (simp add: frontbuffer_format_def Let_def g_def)
  show ?thesis
  proof (cases "f1 AND ?D = 0")
    case True
    with gd f1 have "f1 = f" by auto
    with True show ?thesis by (simp add: r)
  next
    case False
    with d show ?thesis by (simp add: r)
  qed
qed

lemma frontbuffer_format_safe:
  assumes f: "f AND INTFMT_AFBC_DOUBLE_BODY (intfmt e) = 0"
    and d: "frontbuffer_format e p c f AND INTFMT_AFBC_DOUBLE_BODY (intfmt e) \<noteq> 0"
  shows "frontbuffer_format e p c f =
           ((f OR INTFMT_AFBC_DOUBLE_BODY (intfmt e)) AND NOT (INTFMT_AFBC_WIDEBLK (intfmt e)))
             AND NOT (INTFMT_AFBC_EXTRAWIDEBLK (intfmt e))"
proof -
  define g where "g = ((f OR INTFMT_AFBC_DOUBLE_BODY (intfmt e))
                        AND NOT (INTFMT_AFBC_WIDEBLK (intfmt e)))
                        AND NOT (INTFMT_AFBC_EXTRAWIDEBLK (intfmt e))"
  obtain f1 where r: "frontbuffer_format e p c f =
      (if f1 AND INTFMT_AFBC_DOUBLE_BODY (intfmt e) = 0
       then f1 AND INTFMT_FMT_MASK (intfmt e) else f1)"
    and f1: "f1 = g \<or> f1 = f"
    by (simp add: frontbuffer_format_def Let_def g_def)
  show ?thesis
  proof (cases "f1 AND INTFMT_AFBC_DOUBLE_BODY (intfmt e) = 0")
    case True
    then have "frontbuffer_format e p c f AND INTFMT_AFBC_DOUBLE_BODY (intfmt e) = 0"
      by (simp add: r and_mask_zero)
    with d show ?thesis by simp
  next
    case False
    with f f1 have "f1 = g" by auto
    with False show ?thesis
      by (simp add: r g_def)
  qed
qed

text \<open>
  Claim C5, as the code has it. For an ordinary request (format type "usage", no
  private-format flag, a non-negative 32-bit format) that carries the
  front-buffer usage flag, let \<open>s\<close> be the internal format that the selection
  has produced when the front-buffer block is reached, or with which the
  function has left before it. When the returned format has no double-body bit,
  it is the base format of \<open>s\<close> and nothing else: every modifier bit is cleared.
  When it has the double-body bit, it is \<open>s\<close> with the double-body bit set and
  the wide-block and extra-wide-block bits cleared.
\<close>

theorem select_format_frontbuffer_safe:
  assumes wf: "intfmt_wf (intfmt e)"
    and ids: "\<forall>n. ids e n < 0x80000000"
    and req: "req_fmt AND 0x80000000 = 0"
    and fb: "usage AND MALI_GRALLOC_USAGE_FRONTBUFFER \<noteq> 0"
    and not_private: "usage AND MALI_GRALLOC_USAGE_PRIVATE_FORMAT = 0"
    and ret: "mali_gralloc_select_format e req_fmt MALI_GRALLOC_FORMAT_TYPE_USAGE usage buffer_size = Inr r"
  shows "\<exists>s. usage_internal_format e req_fmt usage buffer_size = Inr s
       \<and> (r AND INTFMT_AFBC_DOUBLE_BODY (intfmt e) = 0 \<longrightarrow>
            r = s AND INTFMT_FMT_MASK (intfmt e) \<and> r AND INTFMT_FMT_MASK (intfmt e) = r)
       \<and> (r AND INTFMT_AFBC_DOUBLE_BODY (intfmt e) \<noteq> 0 \<longrightarrow>
            r = ((s OR INTFMT_AFBC_DOUBLE_BODY (intfmt e)) AND NOT (INTFMT_AFBC_WIDEBLK (intfmt e)))
                  AND NOT (INTFMT_AFBC_EXTRAWIDEBLK (intfmt e))
            \<and> r AND INTFMT_AFBC_WIDEBLK (intfmt e) = 0
            \<and> r AND INTFMT_AFBC_EXTRAWIDEBLK (intfmt e) = 0)"
proof -
  let ?D = "INTFMT_AFBC_DOUBLE_BODY (intfmt e)"
  define x where "x = map_flex_formats e (req_fmt AND INTFMT_FMT_MASK (intfmt e))"
  define m where "m = (scast x :: u64)"
  define p where "p = snd (determine_producer usage)"
  define c where "c = snd (determine_consumer e usage)"
  have mask: "INTFMT_FMT_MASK (intfmt e) = 0xffffffff"
    and high: "?D AND 0xffffffff = 0"
    using wf by (simp_all add: intfmt_wf_def)
  have xlt: "x < 0x80000000"
    unfolding x_def mask using ids req by (rule map_flex_formats_lt)
  have m_eq: "m = ucast x"
    unfolding m_def using xlt by (rule scast_nonneg)
  have m_low: "m AND INTFMT_FMT_MASK (intfmt e) = m"
    by (simp add: m_eq mask ucast_low32)
  have m_nd: "m AND ?D = 0"
    unfolding m_eq using high by (rule ucast_and_high)
  have xm: "(ucast m :: u32) = x"
    by (simp add: m_eq ucast_down_up)
  have mm: "m = (scast (map_flex_formats e (req_fmt AND INTFMT_FMT_MASK (intfmt e))) :: u64)"
    by (simp add: m_def x_def)
  from ret select_format_frontbuffer_block [OF not_private, of e req_fmt buffer_size]
  obtain s where s: "usage_internal_format e req_fmt usage buffer_size = Inr s"
    and r: "r = (if fst (determine_producer usage) \<and> fst (determine_consumer e usage)
                 then frontbuffer_format e p c s else s)"
    using fb
    by (cases "usage_internal_format e req_fmt usage buffer_size")
       (auto simp add: bind_res_def p_def c_def split: if_splits)
  have sd: "s AND ?D = 0"
  proof -
    from usage_internal_format_cases [OF s mm p_def c_def]
    consider "s = m" | "s = 0" | pm cm where "s = determine_best_format e x p c pm cm"
      using xm by auto
    then show ?thesis
    proof cases
      case 1
      then show ?thesis using m_nd by simp
    next
      case 2
      then show ?thesis by simp
    next
      case 3
      have "(scast x :: u64) AND ?D = 0"
        using m_nd by (simp add: m_def)
      with wf have "determine_best_format e x p c pm cm AND ?D = 0"
        by (rule determine_best_format_no_double_body)
      then show ?thesis using 3 by simp
    qed
  qed
  have body: "(r AND ?D = 0 \<longrightarrow>
            r = s AND INTFMT_FMT_MASK (intfmt e) \<and> r AND INTFMT_FMT_MASK (intfmt e) = r)
       \<and> (r AND ?D \<noteq> 0 \<longrightarrow>
            r = ((s OR ?D) AND NOT (INTFMT_AFBC_WIDEBLK (intfmt e)))
                  AND NOT (INTFMT_AFBC_EXTRAWIDEBLK (intfmt e))
            \<and> r AND INTFMT_AFBC_WIDEBLK (intfmt e) = 0
            \<and> r AND INTFMT_AFBC_EXTRAWIDEBLK (intfmt e) = 0)"
  proof (cases "fst (determine_producer usage) \<and> fst (determine_consumer e usage)")
    case True
    then have rf: "r = frontbuffer_format e p c s" using r by simp
    show ?thesis
      unfolding rf
      using frontbuffer_format_fallback [OF wf, of p c s]
        frontbuffer_format_safe [OF sd, of p c]
        frontbuffer_format_double_body [OF sd, of p c]
      by (auto simp add: and_mask_idem)
  next
    case False
    with r have rs: "r = s" by auto
    have "s = m"
      using s False mm by (auto simp add: usage_internal_format_def Let_def)
    then show ?thesis
      using rs m_low m_nd by simp
  qed
  from s body show ?thesis by blast
qed

text \<open>
  Two instances. RGBA_8888 with GPU render and texture usage and the
  front-buffer flag: the selection produces 0x900000001 (AFBC basic with tiled
  headers). On the reference build, whose GPU does not advertise double body,
  the result is the base format 1. On a build whose GPU advertises double body
  as well the result is 0x2900000001.
\<close>

theorem select_format_frontbuffer_safe_witness:
  "mali_gralloc_select_format std_build 1 MALI_GRALLOC_FORMAT_TYPE_USAGE 0x10000300 0 = Inr 1
   \<and> usage_internal_format std_build 1 0x10000300 0 = Inr 0x900000001
   \<and> (1 :: u64) AND INTFMT_AFBC_DOUBLE_BODY (intfmt std_build) = 0
   \<and> (1 :: u64) = 0x900000001 AND INTFMT_FMT_MASK (intfmt std_build)
   \<and> mali_gralloc_select_format (std_build\<lparr>gpu_runtime_caps := 0x483\<rparr>) 1
        MALI_GRALLOC_FORMAT_TYPE_USAGE 0x10000300 0 = Inr 0x2900000001
   \<and> usage_internal_format (std_build\<lparr>gpu_runtime_caps := 0x483\<rparr>) 1 0x10000300 0
        = Inr 0x900000001
   \<and> (0x2900000001 :: u64) AND INTFMT_AFBC_DOUBLE_BODY (intfmt std_build) \<noteq> 0
   \<and> (0x2900000001 :: u64) AND INTFMT_AFBC_WIDEBLK (intfmt std_build) = 0
   \<and> (0x2900000001 :: u64) AND INTFMT_AFBC_EXTRAWIDEBLK (intfmt std_build) = 0"
proof -
  let ?b = "std_build\<lparr>gpu_runtime_caps := 0x483\<rparr>"
  have wf: "intfmt_wf (intfmt std_build)"
    by (rule intfmt_wf_std)
  have wf': "intfmt_wf (intfmt ?b)"
    using intfmt_wf_std by simp
  have ids: "\<forall>n. ids std_build n < 0x80000000"
    by (simp add: std_build_def std_ids_lt)
  have ids': "\<forall>n. ids ?b n < 0x80000000"
    by (simp add: std_build_def std_ids_lt)
  have req: "(1 :: u64) AND 0x80000000 = 0"
    by simp
  have fb: "(0x10000300 :: u64) AND MALI_GRALLOC_USAGE_FRONTBUFFER \<noteq> 0"
    by (simp add: usage_defs)
  have np: "(0x10000300 :: u64) AND MALI_GRALLOC_USAGE_PRIVATE_FORMAT = 0"
    by (simp add: usage_defs)
  have masks: "runtime_masks std_build 0x10000300 1 0 MALI_GRALLOC_PRODUCER_GPU
                 MALI_GRALLOC_CONSUMER_GPU_EXCL = Inr (Some (- 1, - 1))"
    by (simp add: runtime_masks_def is_afbc_supported_def apply_gpu_producer_limitations_def
        is_android_yuv_format_def formats_at_def bind_res_def Let_def usage_defs std_table_defs)
  have best: "determine_best_format std_build 1 MALI_GRALLOC_PRODUCER_GPU
                 MALI_GRALLOC_CONSUMER_GPU_EXCL (- 1) (- 1) = 0x900000001"
    by (simp add: determine_best_format_def reject_unsupported_def set_if_def Let_def
        std_build_def std_intfmt_def std_capability_def)
  have sel: "usage_internal_format std_build 1 0x10000300 0 = Inr 0x900000001"
    unfolding usage_internal_format_def
    by (simp add: determine_producer_def determine_consumer_def map_flex_formats_def fid_def
        masks best bind_res_def Let_def usage_defs is_depth_or_stencil_format_def
        std_build_sel std_intfmt_def std_capability_def)
  have ret: "mali_gralloc_select_format std_build 1 MALI_GRALLOC_FORMAT_TYPE_USAGE 0x10000300 0
               = Inr 1"
    unfolding mali_gralloc_select_format_def
    by (simp add: determine_producer_def determine_consumer_def map_flex_formats_def fid_def
        masks best bind_res_def Let_def usage_defs is_depth_or_stencil_format_def
        frontbuffer_format_def std_build_sel std_intfmt_def std_capability_def)
  have masks': "runtime_masks ?b 0x10000300 1 0 MALI_GRALLOC_PRODUCER_GPU
                 MALI_GRALLOC_CONSUMER_GPU_EXCL = Inr (Some (- 1, - 1))"
    by (simp add: runtime_masks_def is_afbc_supported_def apply_gpu_producer_limitations_def
        is_android_yuv_format_def formats_at_def bind_res_def Let_def usage_defs std_table_defs)
  have best': "determine_best_format ?b 1 MALI_GRALLOC_PRODUCER_GPU
                 MALI_GRALLOC_CONSUMER_GPU_EXCL (- 1) (- 1) = 0x900000001"
    by (simp add: determine_best_format_def reject_unsupported_def set_if_def Let_def
        std_build_def std_intfmt_def std_capability_def)
  have sel': "usage_internal_format ?b 1 0x10000300 0 = Inr 0x900000001"
    unfolding usage_internal_format_def
    by (simp add: determine_producer_def determine_consumer_def map_flex_formats_def fid_def
        masks' best' bind_res_def Let_def usage_defs is_depth_or_stencil_format_def
        std_build_sel std_intfmt_def std_capability_def)
  have ret': "mali_gralloc_select_format ?b 1 MALI_GRALLOC_FORMAT_TYPE_USAGE 0x10000300 0
               = Inr 0x2900000001"
    unfolding mali_gralloc_select_format_def
    by (simp add: determine_producer_def determine_consumer_def map_flex_formats_def fid_def
        masks' best' bind_res_def Let_def usage_defs is_depth_or_stencil_format_def
        frontbuffer_format_def std_build_sel std_intfmt_def std_capability_def)
  have d0: "(1 :: u64) AND INTFMT_AFBC_DOUBLE_BODY (intfmt std_build) = 0"
    by (simp add: std_build_def std_intfmt_def)
  have d1: "(0x2900000001 :: u64) AND INTFMT_AFBC_DOUBLE_BODY (intfmt ?b) \<noteq> 0"
    by (simp add: std_build_def std_intfmt_def)
  from select_format_frontbuffer_safe [OF wf ids req fb np ret]
  obtain s where s: "usage_internal_format std_build 1 0x10000300 0 = Inr s"
    and f: "(1 :: u64) AND INTFMT_AFBC_DOUBLE_BODY (intfmt std_build) = 0 \<longrightarrow>
              (1 :: u64) = s AND INTFMT_FMT_MASK (intfmt std_build)"
    by blast
  from s sel have "s = 0x900000001" by simp
  with f d0 have k: "(1 :: u64) = 0x900000001 AND INTFMT_FMT_MASK (intfmt std_build)"
    by blast
  from select_format_frontbuffer_safe [OF wf' ids' req fb np ret']
  obtain s' where
    g: "(0x2900000001 :: u64) AND INTFMT_AFBC_DOUBLE_BODY (intfmt ?b) \<noteq> 0 \<longrightarrow>
          (0x2900000001 :: u64) AND INTFMT_AFBC_WIDEBLK (intfmt ?b) = 0
          \<and> (0x2900000001 :: u64) AND INTFMT_AFBC_EXTRAWIDEBLK (intfmt ?b) = 0"
    by blast
  from g d1 have w: "(0x2900000001 :: u64) AND INTFMT_AFBC_WIDEBLK (intfmt ?b) = 0
          \<and> (0x2900000001 :: u64) AND INTFMT_AFBC_EXTRAWIDEBLK (intfmt ?b) = 0"
    by blast
  have same: "intfmt ?b = intfmt std_build"
    by simp
  from ret sel d0 k ret' sel' d1 w show ?thesis
    unfolding same by blast
qed

text \<open>
  The claim as stated fails outside these requests. A request of format type
  "internal", or one with the private-format flag, is decoded and returned
  before the front-buffer block: RGBA_8888 with the AFBC basic bit
  (0x100000001, wrapped as 0x10001 for the private-format flag) comes back
  with its modifier bit and without double body. A request whose 32-bit format
  is negative and whose usage names the CPU is returned sign-extended:
  0x80000000 comes back as 0xFFFFFFFF80000000, with the double-body bit and the
  wide-block bit both set.
\<close>

theorem select_format_frontbuffer_not_applied:
  "((0x10000000 :: u64) AND MALI_GRALLOC_USAGE_FRONTBUFFER \<noteq> 0
    \<and> mali_gralloc_select_format std_build 0x100000001 MALI_GRALLOC_FORMAT_TYPE_INTERNAL 0x10000000 0
        = Inr 0x100000001
    \<and> (0x100000001 :: u64) AND INTFMT_AFBC_DOUBLE_BODY (intfmt std_build) = 0
    \<and> (0x100000001 :: u64) AND INTFMT_FMT_MASK (intfmt std_build) \<noteq> 0x100000001)
   \<and> ((0x90000000 :: u64) AND MALI_GRALLOC_USAGE_FRONTBUFFER \<noteq> 0
    \<and> mali_gralloc_select_format std_build 0x10001 MALI_GRALLOC_FORMAT_TYPE_USAGE 0x90000000 0
        = Inr 0x100000001)
   \<and> ((0x10000002 :: u64) AND MALI_GRALLOC_USAGE_FRONTBUFFER \<noteq> 0
    \<and> (0x10000002 :: u64) AND MALI_GRALLOC_USAGE_PRIVATE_FORMAT = 0
    \<and> mali_gralloc_select_format std_build 0x80000000 MALI_GRALLOC_FORMAT_TYPE_USAGE 0x10000002 0
        = Inr 0xFFFFFFFF80000000
    \<and> (0xFFFFFFFF80000000 :: u64) AND INTFMT_AFBC_DOUBLE_BODY (intfmt std_build) \<noteq> 0
    \<and> (0xFFFFFFFF80000000 :: u64) AND INTFMT_AFBC_WIDEBLK (intfmt std_build) \<noteq> 0)"
proof -
  have a: "mali_gralloc_select_format std_build 0x100000001 MALI_GRALLOC_FORMAT_TYPE_INTERNAL 0x10000000 0
       = Inr 0x100000001"
    by (simp add: mali_gralloc_select_format_def decode_internal_format_def decodable_formats_def
        map_flex_formats_def fid_def Let_def usage_defs std_build_def std_intfmt_def)
  have b: "mali_gralloc_select_format std_build 0x10001 MALI_GRALLOC_FORMAT_TYPE_USAGE 0x90000000 0
       = Inr 0x100000001"
    by (simp add: mali_gralloc_select_format_def decode_internal_format_def decodable_formats_def
        map_flex_formats_def fid_def Let_def usage_defs std_build_def std_intfmt_def)
  have c: "mali_gralloc_select_format std_build 0x80000000 MALI_GRALLOC_FORMAT_TYPE_USAGE 0x10000002 0
       = Inr 0xFFFFFFFF80000000"
    by (simp add: mali_gralloc_select_format_def determine_producer_def determine_consumer_def
        map_flex_formats_def fid_def Let_def usage_defs std_build_def std_intfmt_def)
  show ?thesis using a b c by (simp add: usage_defs std_build_def std_intfmt_def)
qed


subsection \<open>CPU access to compressed buffers\<close>

lemma validate_lock_input_parameters_afbc:
  assumes "alloc_format hnd AND INTFMT_EXT_MASK (intfmt e) \<noteq> 0"
  shows "\<exists>status. status \<noteq> 0
           \<and> validate_lock_input_parameters e lock_pid (Some hnd) l t w h usage = Inr status"
  using assms
  by (simp add: validate_lock_input_parameters_def Let_def EINVAL_def GRALLOC1_ERROR_UNSUPPORTED_def)

text \<open>
  Claim C10. For every buffer whose \<open>alloc_format\<close> has a bit of the extension
  mask set, \<open>mali_gralloc_lock\<close>, \<open>mali_gralloc_lock_ycbcr\<close> and
  \<open>mali_gralloc_lock_flex_async\<close> return a non-zero status and leave the handle
  and the caller's output (the \<open>vaddr\<close> cell, the \<open>ycbcr\<close> and the flex layout)
  as they were, and \<open>mali_gralloc_get_num_flex_planes\<close> answers
  \<open>GRALLOC1_ERROR_UNSUPPORTED\<close> without writing the plane count.
\<close>

theorem lock_rejects_afbc_buffers:
  assumes "alloc_format hnd AND INTFMT_EXT_MASK (intfmt e) \<noteq> 0"
  shows "(\<exists>status. status \<noteq> 0
            \<and> mali_gralloc_lock e lock_pid (Some hnd) usage l t w h vaddr
                = Inr (status, Some hnd, vaddr))
       \<and> (\<exists>status. status \<noteq> 0
            \<and> mali_gralloc_lock_ycbcr e lock_pid (Some hnd) usage l t w h ycbcr
                = Inr (status, Some hnd, ycbcr))
       \<and> (\<exists>status. status \<noteq> 0
            \<and> snd (mali_gralloc_lock_flex_async e lock_pid (Some hnd) usage l t w h flex_layout fence_fd)
                = Inr (status, Some hnd, flex_layout))
       \<and> mali_gralloc_get_num_flex_planes e (Some hnd) n = Inr (GRALLOC1_ERROR_UNSUPPORTED, n)"
proof -
  obtain status where st: "status \<noteq> 0"
      "validate_lock_input_parameters e lock_pid (Some hnd) l t w h usage = Inr status"
    using validate_lock_input_parameters_afbc [OF assms] by blast
  have a: "\<exists>status. status \<noteq> 0
            \<and> mali_gralloc_lock e lock_pid (Some hnd) usage l t w h vaddr
                = Inr (status, Some hnd, vaddr)"
    using st by (simp add: mali_gralloc_lock_def bind_res_def EINVAL_def)
  have b: "\<exists>status. status \<noteq> 0
            \<and> mali_gralloc_lock_ycbcr e lock_pid (Some hnd) usage l t w h ycbcr
                = Inr (status, Some hnd, ycbcr)"
    using st by (simp add: mali_gralloc_lock_ycbcr_def bind_res_def EINVAL_def Let_def)
  have c: "\<exists>status. status \<noteq> 0
            \<and> snd (mali_gralloc_lock_flex_async e lock_pid (Some hnd) usage l t w h flex_layout fence_fd)
                = Inr (status, Some hnd, flex_layout)"
    using st by (simp add: mali_gralloc_lock_flex_async_def bind_res_def Let_def)
  have d: "mali_gralloc_get_num_flex_planes e (Some hnd) n = Inr (GRALLOC1_ERROR_UNSUPPORTED, n)"
    using assms by (simp add: mali_gralloc_get_num_flex_planes_def Let_def)
  from a b c d show ?thesis by blast
qed


theorem lock_rejects_afbc_buffers_witness:
  "alloc_format std_afbc_handle AND INTFMT_EXT_MASK (intfmt std_build) \<noteq> 0
   \<and> mali_gralloc_lock std_build 100 (Some std_afbc_handle) 0x33 0 0 16 16 (Some 0)
       = Inr (7, Some std_afbc_handle, Some 0)
   \<and> mali_gralloc_lock_ycbcr std_build 100 (Some std_afbc_handle) 0x33 0 0 16 16 None
       = Inr (7, Some std_afbc_handle, None)
   \<and> snd (mali_gralloc_lock_flex_async std_build 100 (Some std_afbc_handle) 0x33 0 0 16 16 None (- 1))
       = Inr (7, Some std_afbc_handle, None)
   \<and> mali_gralloc_get_num_flex_planes std_build (Some std_afbc_handle) 0
       = Inr (GRALLOC1_ERROR_UNSUPPORTED, 0)"
proof -
  have a: "alloc_format std_afbc_handle AND INTFMT_EXT_MASK (intfmt std_build) \<noteq> 0"
    by (simp add: std_afbc_handle_def std_build_def std_intfmt_def)
  have v: "validate_lock_input_parameters std_build 100 (Some std_afbc_handle) 0 0 16 16 0x33 = Inr 7"
    using a
    by (simp add: validate_lock_input_parameters_def Let_def EINVAL_def s32_def
        GRALLOC1_ERROR_UNSUPPORTED_def)
       (simp add: std_afbc_handle_def)
  note r = lock_rejects_afbc_buffers [where hnd = std_afbc_handle and e = std_build
      and lock_pid = 100 and usage = "0x33" and l = 0 and t = 0 and w = 16 and h = 16
      and vaddr = "Some 0" and ycbcr = None and flex_layout = None and fence_fd = "- 1"
      and n = 0, OF a]
  from r obtain s1 where
    "mali_gralloc_lock std_build 100 (Some std_afbc_handle) 0x33 0 0 16 16 (Some 0)
       = Inr (s1, Some std_afbc_handle, Some 0)"
    by blast
  moreover have "mali_gralloc_lock std_build 100 (Some std_afbc_handle) 0x33 0 0 16 16 (Some 0)
       = Inr (7, Some std_afbc_handle, Some 0)"
    using v
    by (simp add: mali_gralloc_lock_def bind_res_def validate_def EINVAL_def sNumFds_def sMagic_def)
       (simp add: std_afbc_handle_def std_build_def)
  ultimately have l: "mali_gralloc_lock std_build 100 (Some std_afbc_handle) 0x33 0 0 16 16 (Some 0)
       = Inr (7, Some std_afbc_handle, Some 0)"
    by simp
  from r obtain s2 where s2:
    "mali_gralloc_lock_ycbcr std_build 100 (Some std_afbc_handle) 0x33 0 0 16 16 None
       = Inr (s2, Some std_afbc_handle, None)"
    by blast
  have y: "mali_gralloc_lock_ycbcr std_build 100 (Some std_afbc_handle) 0x33 0 0 16 16 None
       = Inr (7, Some std_afbc_handle, None)"
    using v
    by (simp add: mali_gralloc_lock_ycbcr_def bind_res_def validate_def EINVAL_def sNumFds_def
        sMagic_def Let_def)
       (simp add: std_afbc_handle_def std_build_def)
  from r obtain s3 where s3:
    "snd (mali_gralloc_lock_flex_async std_build 100 (Some std_afbc_handle) 0x33 0 0 16 16 None (- 1))
       = Inr (s3, Some std_afbc_handle, None)"
    by blast
  have f: "snd (mali_gralloc_lock_flex_async std_build 100 (Some std_afbc_handle) 0x33 0 0 16 16 None (- 1))
       = Inr (7, Some std_afbc_handle, None)"
    using v by (simp add: mali_gralloc_lock_flex_async_def bind_res_def Let_def)
  from r have n: "mali_gralloc_get_num_flex_planes std_build (Some std_afbc_handle) 0
       = Inr (GRALLOC1_ERROR_UNSUPPORTED, 0)"
    by blast
  from a l y f n show ?thesis by blast
qed


subsection \<open>The chroma stride assertion of YV12\<close>

lemma yv12_chroma_assert_cond_zero: "yv12_chroma_assert_cond bs = 0"
  by (simp add: yv12_chroma_assert_cond_def)

text \<open>
  Claim C3. The condition of the second assertion of \<open>update_yv12_stride\<close>,
  parsed as C parses it, is 0 for every byte stride, aligned to 16 or not: it
  checks nothing. Where assertions are compiled in, the function therefore
  never returns for a chroma plane.
\<close>

theorem update_yv12_stride_second_assert_false:
  "yv12_chroma_assert_cond bs = 0
   \<and> (plane \<noteq> 0 \<and> \<not> NDEBUG e \<longrightarrow>
        (\<forall>r. update_yv12_stride e plane luma_stride stride_align \<noteq> Inr r))"
proof -
  have "update_yv12_stride e plane luma_stride stride_align \<noteq> Inr r"
    if "plane \<noteq> 0" "\<not> NDEBUG e" for r
    using that
    by (cases "GRALLOC_ALIGN (luma_stride div 2) stride_align")
       (simp_all add: update_yv12_stride_def Let_def bind_res_def assert_c_def
          yv12_chroma_assert_cond_def)
  then show ?thesis
    by (simp add: yv12_chroma_assert_cond_def)
qed

text \<open>
  An instance: luma stride 128 and stride alignment 64 give the chroma stride
  64, which passes the first assertion and is a multiple of 16; the second
  assertion aborts.
\<close>

theorem update_yv12_stride_second_assert_false_witness:
  "yv12_chroma_assert_cond 64 = 0
   \<and> (1 :: nat) \<noteq> 0
   \<and> \<not> NDEBUG (std_build\<lparr>NDEBUG := False\<rparr>)
   \<and> GRALLOC_ALIGN 64 64 = Inr 64
   \<and> update_yv12_stride (std_build\<lparr>NDEBUG := False\<rparr>) 1 128 64 \<noteq> Inr 64
   \<and> update_yv12_stride (std_build\<lparr>NDEBUG := False\<rparr>) 1 128 64 = Inl AssertionFailed"
proof -
  have a: "(1 :: nat) \<noteq> 0" by simp
  have b: "\<not> NDEBUG (std_build\<lparr>NDEBUG := False\<rparr>)" by simp
  note t = update_yv12_stride_second_assert_false
             [where bs = 64 and plane = 1 and e = "std_build\<lparr>NDEBUG := False\<rparr>"
                and luma_stride = 128 and stride_align = 64]
  from t have c: "yv12_chroma_assert_cond 64 = 0" by blast
  from t a b have d: "update_yv12_stride (std_build\<lparr>NDEBUG := False\<rparr>) 1 128 64 \<noteq> Inr 64"
    by blast
  have g: "GRALLOC_ALIGN 64 64 = Inr 64"
    by (simp add: GRALLOC_ALIGN_def)
  have f: "update_yv12_stride (std_build\<lparr>NDEBUG := False\<rparr>) 1 128 64 = Inl AssertionFailed"
    by (simp add: update_yv12_stride_def Let_def bind_res_def assert_c_def g c)
  from a b c d g f show ?thesis by blast
qed


subsection \<open>Monotonicity of the allocation size\<close>



lemma round_up_ge: "0 < b \<Longrightarrow> v \<le> round_up v b"
proof -
  assume b: "0 < b"
  have "(v + b - 1) div b * b + (v + b - 1) mod b = v + b - 1" by simp
  moreover have "(v + b - 1) mod b < b" using b by simp
  ultimately show ?thesis unfolding round_up_def by linarith
qed



lemma round_up_zero: "0 < b \<Longrightarrow> round_up 0 b = 0"
  by (simp add: round_up_def)


lemma GRALLOC_ALIGN_zero: "GRALLOC_ALIGN v 0 = Inl DivisionByZero"
  by (simp add: GRALLOC_ALIGN_def)
















lemma assert_c_Inr: "(assert_c e c = Inr u) = (NDEBUG e \<or> c)"
  by (simp add: assert_c_def)















































end
